theory Spec2Isabelle
  imports Complex_Main "HOL-Library.Multiset"
begin

section \<open>The contextual memory subsystem of the A SEED backend (main.py)\<close>

text \<open>
  Conventions of the embedding.
  \<^item> A Python \<open>str\<close> is a \<open>string\<close>, a list of 8-bit characters. The ASCII part of every
    character class is written out; how Python's Unicode tables classify a character
    outside ASCII as a word character is a parameter (\<open>uni_word\<close>). \<open>upper\<close> and
    \<open>lower\<close> change the ASCII letters only.
  \<^item> A Python \<open>float\<close> is a \<open>real\<close>, and every arithmetic operation on floats is
    followed by a rounding, a parameter of the functions that compute with floats:
    \<open>binary64\<close> is the rounding of CPython, the identity is exact arithmetic. Overflow,
    infinities and NaN are outside the model.
  \<^item> A file holds either text that \<open>json.load\<close> rejects, or a JSON document. A document
    of the memory store is a list of objects whose four keys may each be missing, or
    some JSON value that is not a list, of which only the truth value matters.
  \<^item> An exception that leaves a function is a value \<open>Inl e\<close>; an exception that the
    source catches is the branch the handler takes.
\<close>

subsection \<open>Strings\<close>

definition is_ascii_alnum :: "char \<Rightarrow> bool" where
  "is_ascii_alnum c =
     (let n = (of_char c :: nat)
      in (48 \<le> n \<and> n \<le> 57) \<or> (65 \<le> n \<and> n \<le> 90) \<or> (97 \<le> n \<and> n \<le> 122))"

text \<open>The class \<open>\w\<close> of \<open>re\<close> on a \<open>str\<close> pattern.\<close>

definition is_word :: "(char \<Rightarrow> bool) \<Rightarrow> char \<Rightarrow> bool" where
  "is_word uw c =
     (if (of_char c :: nat) < 128 then is_ascii_alnum c \<or> c = CHR ''_'' else uw c)"

text \<open>\<open>re.sub(r'[^\w-]', '', s)\<close>: every character outside the class is deleted.\<close>

definition re_sub_unsafe :: "(char \<Rightarrow> bool) \<Rightarrow> string \<Rightarrow> string" where
  "re_sub_unsafe uw s = filter (\<lambda>c. is_word uw c \<or> c = CHR ''-'') s"

text \<open>\<open>str.isspace\<close> on one character, for the code points below 256.\<close>

definition is_space :: "char \<Rightarrow> bool" where
  "is_space c =
     (let n = (of_char c :: nat)
      in (9 \<le> n \<and> n \<le> 13) \<or> (28 \<le> n \<and> n \<le> 32) \<or> n = 133 \<or> n = 160)"

definition strip :: "string \<Rightarrow> string" where
  "strip s = rev (dropWhile is_space (rev (dropWhile is_space s)))"

definition upper_char :: "char \<Rightarrow> char" where
  "upper_char c =
     (let n = (of_char c :: nat) in if 97 \<le> n \<and> n \<le> 122 then char_of (n - 32) else c)"

definition lower_char :: "char \<Rightarrow> char" where
  "lower_char c =
     (let n = (of_char c :: nat) in if 65 \<le> n \<and> n \<le> 90 then char_of (n + 32) else c)"

definition upper :: "string \<Rightarrow> string" where
  "upper s = map upper_char s"

definition lower :: "string \<Rightarrow> string" where
  "lower s = map lower_char s"

text \<open>\<open>sep.join(xs)\<close>.\<close>

fun join :: "string \<Rightarrow> string list \<Rightarrow> string" where
  "join sep [] = []"
| "join sep [x] = x"
| "join sep (x # y # ys) = x @ sep @ join sep (y # ys)"

text \<open>\<open>str(n)\<close> for an integer: the decimal digits, with a minus sign below zero.\<close>

definition digit_char :: "nat \<Rightarrow> char" where
  "digit_char d = char_of (48 + d)"

fun str_nat :: "nat \<Rightarrow> string" where
  "str_nat n = (if n < 10 then [digit_char n] else str_nat (n div 10) @ [digit_char (n mod 10)])"

declare str_nat.simps [simp del]

definition str_int :: "int \<Rightarrow> string" where
  "str_int i = (if i < 0 then CHR ''-'' # str_nat (nat (- i)) else str_nat (nat i))"

subsection \<open>Paths\<close>

text \<open>
  A path is the list of its components below the root. \<open>path_join\<close> is the operator
  \<open>/\<close> of \<open>pathlib\<close> with a string on the right: the string is cut at every slash, empty
  components and \<open>.\<close> are dropped, \<open>..\<close> is kept, and a string that starts with a slash
  replaces the path on the left.
\<close>

type_synonym path = "string list"

fun split_on :: "char \<Rightarrow> string \<Rightarrow> string list" where
  "split_on sep [] = [[]]"
| "split_on sep (c # cs) =
     (if c = sep then [] # split_on sep cs
      else (case split_on sep cs of [] \<Rightarrow> [[c]] | w # ws \<Rightarrow> (c # w) # ws))"

definition path_join :: "path \<Rightarrow> string \<Rightarrow> path" where
  "path_join base seg =
     (let parts = filter (\<lambda>p. p \<noteq> [] \<and> p \<noteq> ''.'') (split_on CHR ''/'' seg)
      in if seg \<noteq> [] \<and> hd seg = CHR ''/'' then parts else base @ parts)"

subsection \<open>The environment of a request\<close>

text \<open>
  What the code reads from outside: the clock, the directory of the program, the
  embedding and generation backends, \<open>json.loads\<close>, the prompt file, the Unicode
  tables and the rounding of the float arithmetic. \<open>get_embedding\<close> is the source's
  function of that name seen from its callers: \<open>None\<close> when the request fails, the
  status is not 200 or the key is absent. \<open>ollama_post\<close> is the content of the answer of
  the generation backend, the empty string when the answer holds none, and \<open>None\<close> when
  the request or the reading of the answer raises.

  A JSON value is told apart as far as the code does: a string, or a value that is not
  a string, of which only the truth value matters (\<open>null\<close>, 0, \<open>false\<close>, an empty list or
  object are false; any other number, \<open>true\<close>, a list or an object with entries are true).
\<close>

datatype jfield = JStr string | JFalsy | JTruthy

type_synonym jobj = "string \<rightharpoonup> jfield"

record env =
  now_ts :: int
  BASE_DIR :: path
  uni_word :: "char \<Rightarrow> bool"
  float_round :: "real \<Rightarrow> real"
  get_embedding :: "string \<Rightarrow> real list option"
  ollama_post :: "(string \<times> string) list \<Rightarrow> jfield option"
  json_loads :: "string \<Rightarrow> jobj option"
  prompt_file :: "string option"

definition DATA_DIR :: "env \<Rightarrow> path" where
  "DATA_DIR e = path_join (BASE_DIR e) ''data''"

definition SESS_DIR :: "env \<Rightarrow> path" where
  "SESS_DIR e = path_join (DATA_DIR e) ''sessions''"

definition MEM_DIR :: "env \<Rightarrow> path" where
  "MEM_DIR e = path_join (DATA_DIR e) ''memories''"

definition get_mem_path :: "env \<Rightarrow> string \<Rightarrow> path" where
  "get_mem_path e user_id =
     (let safe_uid = re_sub_unsafe (uni_word e) user_id
      in path_join (MEM_DIR e) (safe_uid @ ''.json''))"

subsection \<open>Floating-point arithmetic\<close>

text \<open>
  \<open>binary64\<close> rounds a real number to the nearest number of the IEEE 754 double format:
  a significand of 53 bits, the least exponent -1022 (so that the numbers below
  \<open>2 powi - 1022\<close> lie on the grid of the subnormal numbers), a tie going to the even
  significand. A result of magnitude \<open>2 ^ 1024\<close> or more stands for an overflow.
\<close>

definition round_half_even :: "real \<Rightarrow> int" where
  "round_half_even y =
     (let f = \<lfloor>y\<rfloor>; d = y - of_int f
      in if d < 1 / 2 then f else if 1 / 2 < d then f + 1 else if even f then f else f + 1)"

definition exponent64 :: "real \<Rightarrow> int" where
  "exponent64 x = max \<lfloor>log 2 \<bar>x\<bar>\<rfloor> (- 1022)"

definition binary64 :: "real \<Rightarrow> real" where
  "binary64 x =
     (if x = 0 then 0
      else let ulp = 2 powi (exponent64 x - 52)
           in of_int (round_half_even (x / ulp)) * ulp)"

text \<open>
  \<open>sum(xs)\<close> on floats: the partial sums from the left, starting at 0, each rounded
  (CPython 3.12 and later also carry a correction term for the rounding errors).
\<close>

definition py_sum :: "(real \<Rightarrow> real) \<Rightarrow> real list \<Rightarrow> real" where
  "py_sum fl xs = foldl (\<lambda>s x. fl (s + x)) 0 xs"

subsection \<open>Cosine similarity\<close>

text \<open>\<open>math.sqrt(sum(a * a for a in v))\<close>, the magnitude of a vector.\<close>

definition magnitude :: "(real \<Rightarrow> real) \<Rightarrow> real list \<Rightarrow> real" where
  "magnitude fl v = fl (sqrt (py_sum fl (map (\<lambda>a. fl (a * a)) v)))"

definition cosine_sim :: "(real \<Rightarrow> real) \<Rightarrow> real list \<Rightarrow> real list \<Rightarrow> real" where
  "cosine_sim fl v1 v2 =
     (if v1 = [] \<or> v2 = [] \<or> length v1 \<noteq> length v2 then 0
      else
        let dot = py_sum fl (map (\<lambda>(a, b). fl (a * b)) (zip v1 v2));
            mag1 = magnitude fl v1;
            mag2 = magnitude fl v2
        in if mag1 = 0 \<or> mag2 = 0 then 0 else fl (dot / fl (mag1 * mag2)))"

subsection \<open>The memory store\<close>

datatype error = KeyError | TypeError | AttributeError

record item =
  item_ts :: "int option"
  item_role :: "string option"
  item_text :: "string option"
  item_vector :: "real list option"

datatype json_doc = JList "item list" | JOther bool

datatype store_file = Corrupt | Doc json_doc

type_synonym mem_fs = "path \<rightharpoonup> store_file"

text \<open>
  Lines 125 to 128 of \<open>save_memory_npy\<close>: the collection read before an append. A file
  that is absent or that \<open>json.load\<close> rejects gives the empty list.
\<close>

definition load_data :: "mem_fs \<Rightarrow> path \<Rightarrow> json_doc" where
  "load_data fs p =
     (case fs p of None \<Rightarrow> JList [] | Some Corrupt \<Rightarrow> JList [] | Some (Doc d) \<Rightarrow> d)"

definition new_record :: "env \<Rightarrow> string \<Rightarrow> string \<Rightarrow> real list \<Rightarrow> item" where
  "new_record e role txt vec =
     \<lparr>item_ts = Some (now_ts e), item_role = Some role, item_text = Some txt,
      item_vector = Some vec\<rparr>"

text \<open>
  \<open>save_memory_npy\<close> returns the file system after the call. \<open>data.append\<close> is outside
  every handler: it raises when the document read is not a list. The write of line 130
  is taken to succeed.
\<close>

definition save_memory_npy :: "env \<Rightarrow> mem_fs \<Rightarrow> string \<Rightarrow> string \<Rightarrow> string \<Rightarrow> error + mem_fs" where
  "save_memory_npy e fs user_id txt role =
     (if strip txt = [] then Inr fs
      else case get_embedding e txt of
        None \<Rightarrow> Inr fs
      | Some vec \<Rightarrow>
          if vec = [] then Inr fs
          else
            let p = get_mem_path e user_id
            in case load_data fs p of
                 JOther t \<Rightarrow> Inl AttributeError
               | JList data \<Rightarrow>
                   Inr (fs(p \<mapsto> Doc (JList (data @ [new_record e role txt vec])))))"

text \<open>
  \<open>save_memory_npy\<close> called with a text of any type: a value that is not a string has no
  method \<open>strip\<close>, and line 121 raises.
\<close>

definition save_memory_value :: "env \<Rightarrow> mem_fs \<Rightarrow> string \<Rightarrow> jfield \<Rightarrow> string \<Rightarrow> error + mem_fs" where
  "save_memory_value e fs user_id v role =
     (case v of
        JStr t \<Rightarrow> save_memory_npy e fs user_id t role
      | JFalsy \<Rightarrow> Inl AttributeError
      | JTruthy \<Rightarrow> Inl AttributeError)"

text \<open>The loop of lines 141 to 143: \<open>item["vector"]\<close> and \<open>item["text"]\<close> raise on a missing key.\<close>

fun score_items :: "(real \<Rightarrow> real) \<Rightarrow> real list \<Rightarrow> item list \<Rightarrow> error + (real \<times> string) list" where
  "score_items fl q [] = Inr []"
| "score_items fl q (it # its) =
     (case item_vector it of
        None \<Rightarrow> Inl KeyError
      | Some v \<Rightarrow>
          (case item_text it of
             None \<Rightarrow> Inl KeyError
           | Some t \<Rightarrow>
               (case score_items fl q its of
                  Inl err \<Rightarrow> Inl err
                | Inr scores \<Rightarrow> Inr ((cosine_sim fl q v, t) # scores))))"

text \<open>
  \<open>list.sort(key=..., reverse=True)\<close>: CPython reverses the list, sorts it with a stable
  ascending sort and reverses the result.
\<close>

definition sort_reverse :: "('a \<Rightarrow> real) \<Rightarrow> 'a list \<Rightarrow> 'a list" where
  "sort_reverse k xs = rev (sort_key k (rev xs))"

text \<open>The slice \<open>xs[:k]\<close>: a negative \<open>k\<close> counts from the end.\<close>

definition slice_to :: "int \<Rightarrow> 'a list \<Rightarrow> 'a list" where
  "slice_to k xs = (if 0 \<le> k then take (nat k) xs else take (length xs - nat (- k)) xs)"

definition context_block :: "string list \<Rightarrow> string" where
  "context_block res =
     (if res = [] then []
      else [CHR 0x0A, CHR 0x0A] @ ''[Relevant Context]:'' @ [CHR 0x0A]
           @ join [CHR 0x0A] (map (\<lambda>t. ''- '' @ t) res))"

definition top_texts :: "int \<Rightarrow> (real \<times> string) list \<Rightarrow> string list" where
  "top_texts top_k scores = map snd (slice_to top_k (sort_reverse fst scores))"

definition find_relevant_npy :: "env \<Rightarrow> mem_fs \<Rightarrow> string \<Rightarrow> string \<Rightarrow> int \<Rightarrow> error + string" where
  "find_relevant_npy e fs user_id query top_k =
     (case fs (get_mem_path e user_id) of
        None \<Rightarrow> Inr []
      | Some f \<Rightarrow>
          (case get_embedding e query of
             None \<Rightarrow> Inr []
           | Some q_vec \<Rightarrow>
               if q_vec = [] then Inr []
               else
                 (case f of
                    Corrupt \<Rightarrow> Inr []
                  | Doc (JOther t) \<Rightarrow> if \<not> t then Inr [] else Inl TypeError
                  | Doc (JList data) \<Rightarrow>
                      if data = [] then Inr []
                      else
                        (case score_items (float_round e) q_vec data of
                           Inl err \<Rightarrow> Inl err
                         | Inr scores \<Rightarrow> Inr (context_block (top_texts top_k scores))))))"

subsection \<open>The trend analyser\<close>

text \<open>
  A session file holds a transcript or text that \<open>json.load\<close> rejects. The keys
  \<open>updated\<close>, \<open>chat\<close>, \<open>role\<close> and \<open>emotion\<close> may be missing. A directory of sessions is
  the list of its \<open>*.json\<close> files in the order in which \<open>glob\<close> yields them.
\<close>

record msg =
  msg_role :: "string option"
  msg_emotion :: "string option"

record transcript =
  updated :: "int option"
  chat :: "msg list option"

datatype session_file = SCorrupt | SDoc transcript

type_synonym sess_fs = "path \<rightharpoonup> session_file list"

text \<open>The loop of lines 158 to 163; every exception inside it skips the file.\<close>

fun recent_files :: "int \<Rightarrow> session_file list \<Rightarrow> transcript list" where
  "recent_files cutoff [] = []"
| "recent_files cutoff (SCorrupt # ps) = recent_files cutoff ps"
| "recent_files cutoff (SDoc obj # ps) =
     (if (case updated obj of None \<Rightarrow> 0 | Some u \<Rightarrow> u) > cutoff
      then obj # recent_files cutoff ps
      else recent_files cutoff ps)"

text \<open>
  The dictionary \<open>cnt\<close> is an association list in insertion order, the order in which
  Python iterates over it.
\<close>

type_synonym tally = "(string \<times> nat) list"

definition bump :: "tally \<Rightarrow> string \<Rightarrow> tally" where
  "bump cnt e =
     (if e \<in> fst ` set cnt then map (\<lambda>(k, n). if k = e then (k, n + 1) else (k, n)) cnt
      else cnt @ [(e, 1)])"

fun count_chat :: "tally \<Rightarrow> msg list \<Rightarrow> tally" where
  "count_chat cnt [] = cnt"
| "count_chat cnt (m # ms) =
     count_chat
       (if msg_role m = Some ''assistant''
        then (let e = (case msg_emotion m of None \<Rightarrow> ''neutral'' | Some l \<Rightarrow> l)
              in if e \<noteq> ''neutral'' then bump cnt e else cnt)
        else cnt) ms"

fun count_files :: "tally \<Rightarrow> transcript list \<Rightarrow> tally" where
  "count_files cnt [] = cnt"
| "count_files cnt (f # fs) =
     count_files (count_chat cnt (case chat f of None \<Rightarrow> [] | Some c \<Rightarrow> c)) fs"

text \<open>\<open>max(cnt, key=cnt.get)\<close>: the first key, in iteration order, whose count is greatest.\<close>

fun max_key :: "string \<times> nat \<Rightarrow> tally \<Rightarrow> string \<times> nat" where
  "max_key best [] = best"
| "max_key best (x # xs) = max_key (if snd best < snd x then x else best) xs"

definition bad :: "string list" where
  "bad = [''sadness'', ''anger'', ''fear'', ''anxiety'']"

definition trend_header :: "int \<Rightarrow> string \<Rightarrow> nat \<Rightarrow> nat \<Rightarrow> string" where
  "trend_header days dom1 c tot =
     [CHR 0x0A] @ ''[PSYCHOLOGICAL TREND ANALYSIS]:'' @ [CHR 0x0A]
     @ ''- Last '' @ str_int days @ '' days mood: '' @ [CHR 0x27] @ upper dom1 @ [CHR 0x27]
     @ '' ('' @ str_nat c @ ''/'' @ str_nat tot @ '').'' @ [CHR 0x0A]"

definition trend_suggestion :: string where
  "trend_suggestion =
     ''- Lingering negative mood detected. Suggest behavioral intervention (rest, brain dump) instead of just comfort.''
     @ [CHR 0x0A]"

text \<open>
  Lines 176 to 189: the decision on the tally. The quotient \<open>c / tot\<close> is compared with
  0.4 in exact arithmetic; CPython rounds the quotient and the literal to doubles, which
  decides the comparison the same way as long as the total stays below \<open>2 ^ 50\<close>.
\<close>

definition trend_note :: "int \<Rightarrow> tally \<Rightarrow> string" where
  "trend_note days cnt =
     (case cnt of
        [] \<Rightarrow> []
      | x # xs \<Rightarrow>
          let (dom1, c) = max_key x xs;
              tot = sum_list (map snd cnt)
          in if tot \<ge> 3 \<and> real c / real tot > 0.4
             then trend_header days dom1 c tot @ (if dom1 \<in> set bad then trend_suggestion else [])
             else [])"

definition analyze_user_trends :: "env \<Rightarrow> sess_fs \<Rightarrow> string \<Rightarrow> int \<Rightarrow> string" where
  "analyze_user_trends e sfs user_id days =
     (let uid = re_sub_unsafe (uni_word e) user_id;
          d = path_join (SESS_DIR e) uid
      in case sfs d of
           None \<Rightarrow> []
         | Some ps \<Rightarrow>
             let cutoff = now_ts e - days * 86400;
                 files = recent_files cutoff ps
             in if files = [] then [] else trend_note days (count_files [] files))"

text \<open>
  \<open>get_user_session_dir\<close>: the directory of the logged-in user, created when absent.
\<close>

definition get_user_session_dir :: "env \<Rightarrow> sess_fs \<Rightarrow> string option \<Rightarrow> path option \<times> sess_fs" where
  "get_user_session_dir e sfs user =
     (case user of
        None \<Rightarrow> (None, sfs)
      | Some uid \<Rightarrow>
          if uid = [] then (None, sfs)
          else
            let d = path_join (SESS_DIR e) (re_sub_unsafe (uni_word e) uid)
            in (Some d, (case sfs d of None \<Rightarrow> sfs(d \<mapsto> []) | Some ps \<Rightarrow> sfs)))"

subsection \<open>The chat endpoint\<close>

text \<open>
  \<open>ollama_chat\<close>: the entry \<open>text\<close> of the dictionary it returns, the content of the answer
  whatever its type, and the empty string when the handler of line 198 is taken.
\<close>

definition ollama_chat :: "env \<Rightarrow> (string \<times> string) list \<Rightarrow> jfield" where
  "ollama_chat e messages =
     (case ollama_post e messages of None \<Rightarrow> JStr [] | Some content \<Rightarrow> content)"

text \<open>\<open>not v\<close> on a JSON value.\<close>

definition falsy :: "jfield \<Rightarrow> bool" where
  "falsy v = (case v of JStr s \<Rightarrow> s = [] | JFalsy \<Rightarrow> True | JTruthy \<Rightarrow> False)"

definition get_system_prompt :: "env \<Rightarrow> string" where
  "get_system_prompt e = (case prompt_file e of None \<Rightarrow> ''You are A SEED.'' | Some p \<Rightarrow> p)"

text \<open>
  \<open>re.search(r"\{.*\}", s, re.DOTALL)\<close>: from the first opening brace to the last closing
  brace after it.
\<close>

definition re_search_braces :: "string \<Rightarrow> string option" where
  "re_search_braces s =
     (let rest = dropWhile (\<lambda>c. c \<noteq> CHR ''{'') s;
          m = rev (dropWhile (\<lambda>c. c \<noteq> CHR ''}'') (rev rest))
      in if m = [] then None else Some m)"

text \<open>\<open>safe_json\<close>: every exception gives the empty dictionary.\<close>

definition safe_json :: "env \<Rightarrow> string \<Rightarrow> jobj" where
  "safe_json e s =
     (case re_search_braces s of
        None \<Rightarrow> Map.empty
      | Some m \<Rightarrow> (case json_loads e m of None \<Rightarrow> Map.empty | Some obj \<Rightarrow> obj))"

text \<open>
  \<open>obj.get(k) or dflt\<close>, followed by a method of \<open>str\<close>: a value that is true and not a
  string has no such method.
\<close>

definition get_or :: "jobj \<Rightarrow> string \<Rightarrow> string \<Rightarrow> error + string" where
  "get_or obj k dflt =
     (case obj k of
        None \<Rightarrow> Inr dflt
      | Some (JStr s) \<Rightarrow> Inr (if s = [] then dflt else s)
      | Some JFalsy \<Rightarrow> Inr dflt
      | Some JTruthy \<Rightarrow> Inl AttributeError)"

record request =
  session_user :: "string option"
  message :: string
  history :: "(string \<times> string) list"

datatype response =
    Json_error nat string
  | Json_reply string string
  | Uncaught error

text \<open>Lines 276 to 280: the dictionary of the response, \<open>emotion\<close> first.\<close>

definition chat_reply :: "env \<Rightarrow> string \<Rightarrow> response" where
  "chat_reply e txt =
     (let obj = safe_json e txt
      in case get_or obj ''emotion'' ''neutral'' of
           Inl err \<Rightarrow> Uncaught err
         | Inr emo \<Rightarrow>
             (case get_or obj ''reply'' txt of
                Inl err \<Rightarrow> Uncaught err
              | Inr rep \<Rightarrow> Json_reply (strip (lower emo)) (strip rep)))"

text \<open>Lines 261 to 267: the messages sent to the generation backend.\<close>

definition build_messages ::
  "string \<Rightarrow> string \<Rightarrow> string \<Rightarrow> (string \<times> string) list \<Rightarrow> string \<Rightarrow> (string \<times> string) list" where
  "build_messages sys_prompt trend_ctx ctx hist msg =
     [(''system'',
       sys_prompt @ trend_ctx @ (if ctx \<noteq> [] then [CHR 0x0A, CHR 0x0A] @ ctx else []))]
     @ hist @ [(''user'', msg)]"

text \<open>
  \<open>api_chat\<close> returns the response and the memory store after the request. An exception
  that no handler catches ends the request where it is raised. Line 271 ends the turn
  on a text that is false; a text that is true and not a string passes it.
\<close>

definition api_chat :: "env \<Rightarrow> sess_fs \<Rightarrow> mem_fs \<Rightarrow> request \<Rightarrow> response \<times> mem_fs" where
  "api_chat e sfs fs req =
     (case session_user req of
        None \<Rightarrow> (Json_error 401 ''unauthorized'', fs)
      | Some uid \<Rightarrow>
          let msg = strip (message req); hist = history req
          in if msg = [] then (Json_error 400 ''empty'', fs)
             else
               let trend_ctx = analyze_user_trends e sfs uid 5
               in case find_relevant_npy e fs uid msg 3 of
                    Inl err \<Rightarrow> (Uncaught err, fs)
                  | Inr ctx \<Rightarrow>
                      let msgs = build_messages (get_system_prompt e) trend_ctx ctx hist msg;
                          txt = ollama_chat e msgs
                      in if falsy txt then (Json_error 500 ''backend-failed'', fs)
                         else
                           (case save_memory_npy e fs uid msg ''user'' of
                              Inl err \<Rightarrow> (Uncaught err, fs)
                            | Inr fs1 \<Rightarrow>
                                (case save_memory_value e fs1 uid txt ''assistant'' of
                                   Inl err \<Rightarrow> (Uncaught err, fs1)
                                 | Inr fs2 \<Rightarrow>
                                     (case txt of
                                        JStr t \<Rightarrow> (chat_reply e t, fs2)
                                      | JFalsy \<Rightarrow> (Uncaught AttributeError, fs2)
                                      | JTruthy \<Rightarrow> (Uncaught AttributeError, fs2)))))"

subsection \<open>Vocabulary of the properties\<close>

text \<open>The characters that the sanitised identifier may contain.\<close>

definition safe_char :: "(char \<Rightarrow> bool) \<Rightarrow> char \<Rightarrow> bool" where
  "safe_char uw c = (is_word uw c \<or> c = CHR ''-'')"

text \<open>What retrieval reads of a stored record.\<close>

definition similarity :: "(real \<Rightarrow> real) \<Rightarrow> real list \<Rightarrow> item \<Rightarrow> real" where
  "similarity fl q it = (case item_vector it of None \<Rightarrow> 0 | Some v \<Rightarrow> cosine_sim fl q v)"

definition text_of :: "item \<Rightarrow> string" where
  "text_of it = (case item_text it of None \<Rightarrow> [] | Some t \<Rightarrow> t)"

definition has_fields :: "item \<Rightarrow> bool" where
  "has_fields it = (item_vector it \<noteq> None \<and> item_text it \<noteq> None)"

text \<open>
  A record as \<open>save_memory_npy\<close> writes it: the four keys are present, the text is not
  blank and the vector is not empty.
\<close>

definition wf_item :: "item \<Rightarrow> bool" where
  "wf_item it =
     (item_ts it \<noteq> None \<and> item_role it \<noteq> None \<and>
      (case item_text it of None \<Rightarrow> False | Some t \<Rightarrow> strip t \<noteq> []) \<and>
      (case item_vector it of None \<Rightarrow> False | Some v \<Rightarrow> v \<noteq> []))"

text \<open>The records of a store as an append reads them.\<close>

definition stored :: "mem_fs \<Rightarrow> path \<Rightarrow> item list" where
  "stored fs p = (case load_data fs p of JList d \<Rightarrow> d | JOther t \<Rightarrow> [])"

text \<open>The file at a path is absent or a list of records as the subsystem writes them.\<close>

definition good_at :: "mem_fs \<Rightarrow> path \<Rightarrow> bool" where
  "good_at fs p =
     (case fs p of
        None \<Rightarrow> True
      | Some Corrupt \<Rightarrow> False
      | Some (Doc (JOther t)) \<Rightarrow> False
      | Some (Doc (JList d)) \<Rightarrow> list_all wf_item d)"

text \<open>
  The stores written by this subsystem alone: no file at the start, and every later
  state is the result of a call of \<open>save_memory_npy\<close>, with any clock, backend and
  arguments.
\<close>

inductive written :: "mem_fs \<Rightarrow> bool" where
  start: "written Map.empty"
| append: "written fs \<Longrightarrow> save_memory_npy e fs user_id txt role = Inr fs' \<Longrightarrow> written fs'"

text \<open>
  A field of the extracted object that gives no string: absent, false or empty. The
  string that a field gives otherwise.
\<close>

definition unusable :: "jfield option \<Rightarrow> bool" where
  "unusable f = (f = None \<or> f = Some JFalsy \<or> f = Some (JStr []))"

definition usable :: "jfield option \<Rightarrow> string option" where
  "usable f =
     (case f of
        None \<Rightarrow> None
      | Some (JStr s) \<Rightarrow> if s = [] then None else Some s
      | Some JFalsy \<Rightarrow> None
      | Some JTruthy \<Rightarrow> None)"



text \<open>The transcripts of a directory that \<open>json.load\<close> accepts, and the time a transcript counts for.\<close>

definition parsed :: "session_file list \<Rightarrow> transcript list" where
  "parsed ps = concat (map (\<lambda>p. case p of SCorrupt \<Rightarrow> [] | SDoc t \<Rightarrow> [t]) ps)"

definition updated_or_0 :: "transcript \<Rightarrow> int" where
  "updated_or_0 t = (case updated t of None \<Rightarrow> 0 | Some u \<Rightarrow> u)"

text \<open>
  The window as the specification words it: \<open>updated\<close> lies in the closed interval from
  \<open>now - windowDays * 86400\<close> to \<open>now\<close>.
\<close>

definition spec_window :: "int \<Rightarrow> int \<Rightarrow> transcript \<Rightarrow> bool" where
  "spec_window now days t =
     (case updated t of None \<Rightarrow> False | Some u \<Rightarrow> now - days * 86400 \<le> u \<and> u \<le> now)"

subsection \<open>Concrete inputs\<close>

definition demo_env :: env where
  "demo_env =
     \<lparr>now_ts = 1000000, BASE_DIR = [''srv''], uni_word = (\<lambda>c. False),
      float_round = binary64,
      get_embedding = (\<lambda>t. if t = ''hello'' then Some [1, 0] else None),
      ollama_post = (\<lambda>m. None), json_loads = (\<lambda>s. None), prompt_file = None\<rparr>"

definition demo_env_braces :: env where
  "demo_env_braces = demo_env\<lparr>ollama_post := (\<lambda>m. Some (JStr ''ok {not json} bye''))\<rparr>"

text \<open>A backend whose answer holds the number 42 as content.\<close>

definition demo_env_number :: env where
  "demo_env_number = demo_env\<lparr>ollama_post := (\<lambda>m. Some JTruthy)\<rparr>"

text \<open>
  The output \<open>{"emotion": "joy"}\<close>, and a backend that answers it; \<open>json.loads\<close> reads
  the object with the one key from it.
\<close>

definition emotion_only :: string where
  "emotion_only =
     ''{'' @ [CHR 0x22] @ ''emotion'' @ [CHR 0x22] @ '': '' @ [CHR 0x22] @ ''joy'' @ [CHR 0x22]
     @ ''}''"

definition demo_env_emotion :: env where
  "demo_env_emotion =
     demo_env
       \<lparr>ollama_post := (\<lambda>m. Some (JStr emotion_only)),
        json_loads := (\<lambda>s. if s = emotion_only then Some [''emotion'' \<mapsto> JStr ''joy''] else None)\<rparr>"

definition demo_item :: "string \<Rightarrow> real list \<Rightarrow> item" where
  "demo_item t v =
     \<lparr>item_ts = Some 1, item_role = Some ''user'', item_text = Some t, item_vector = Some v\<rparr>"

definition demo_data :: "item list" where
  "demo_data = [demo_item ''a'' [0, 1], demo_item ''b'' [1, 0], demo_item ''c'' [2, 0]]"

definition demo_store :: mem_fs where
  "demo_store = [[''srv'', ''data'', ''memories'', ''alice.json''] \<mapsto> Doc (JList demo_data)]"

definition demo_request :: request where
  "demo_request = \<lparr>session_user = Some ''alice'', message = '' hello '', history = []\<rparr>"

definition sad_chat :: "msg list" where
  "sad_chat =
     [\<lparr>msg_role = Some ''assistant'', msg_emotion = Some ''sadness''\<rparr>,
      \<lparr>msg_role = Some ''user'', msg_emotion = None\<rparr>,
      \<lparr>msg_role = Some ''assistant'', msg_emotion = Some ''sadness''\<rparr>,
      \<lparr>msg_role = Some ''assistant'', msg_emotion = Some ''neutral''\<rparr>,
      \<lparr>msg_role = Some ''assistant'', msg_emotion = Some ''sadness''\<rparr>]"

definition edge_transcript :: transcript where
  "edge_transcript = \<lparr>updated = Some (1000000 - 5 * 86400), chat = Some sad_chat\<rparr>"

definition future_transcript :: transcript where
  "future_transcript = \<lparr>updated = Some 1000001, chat = Some sad_chat\<rparr>"

definition demo_sessions :: "transcript \<Rightarrow> sess_fs" where
  "demo_sessions t = [[''srv'', ''data'', ''sessions'', ''alice''] \<mapsto> [SDoc t]]"

section \<open>Properties\<close>

subsection \<open>Rounding to the double format\<close>

lemma round_half_even_near:
  assumes "\<bar>y - of_int n\<bar> < 1 / 2"
  shows "round_half_even y = n"
proof -
  have "\<lfloor>y\<rfloor> = n \<or> \<lfloor>y\<rfloor> = n - 1" using assms by linarith
  then show ?thesis
  proof
    assume f: "\<lfloor>y\<rfloor> = n"
    then have "y - of_int n < 1 / 2" using assms by linarith
    with f show ?thesis by (simp add: round_half_even_def Let_def)
  next
    assume f: "\<lfloor>y\<rfloor> = n - 1"
    have "- (1 / 2) < y - of_int n" using assms by linarith
    then have "1 / 2 < y - of_int (n - 1)" by simp
    with f show ?thesis by (simp add: round_half_even_def Let_def)
  qed
qed

lemma exponent64_eq:
  assumes "2 powi k \<le> \<bar>x\<bar>" "\<bar>x\<bar> < 2 powi (k + 1)" "- 1022 \<le> k"
  shows "exponent64 x = k"
proof -
  have pos: "0 < \<bar>x\<bar>" using assms(1) by (smt (verit) zero_less_power_int)
  have l: "2 powr real_of_int k \<le> \<bar>x\<bar>"
    using assms(1) by (simp add: powr_real_of_int')
  have "2 powr real_of_int (k + 1) = (2::real) powi (k + 1)"
    by (rule powr_real_of_int') simp_all
  then have u: "\<bar>x\<bar> < 2 powr real_of_int (k + 1)"
    using assms(2) by (simp only:)
  have "\<lfloor>log 2 \<bar>x\<bar>\<rfloor> = k"
    using floor_log_eq_powr_iff [OF pos, of 2 k] l u by simp
  with assms(3) show ?thesis by (simp add: exponent64_def)
qed

text \<open>
  The rounding of a number of exponent \<open>k\<close>: the significand is the integer within one
  half of the number divided by \<open>2 powi (k - 52)\<close>.
\<close>

lemma binary64_eval:
  assumes "2 powi k \<le> \<bar>x\<bar>" "\<bar>x\<bar> < 2 powi (k + 1)" "- 1022 \<le> k"
    and "\<bar>x / 2 powi (k - 52) - of_int n\<bar> < 1 / 2"
  shows "binary64 x = of_int n * 2 powi (k - 52)"
proof -
  have "x \<noteq> 0" using assms(1) by (smt (verit) zero_less_power_int)
  then show ?thesis
    using exponent64_eq [OF assms(1-3)] round_half_even_near [OF assms(4)]
    by (simp add: binary64_def Let_def)
qed

lemma binary64_0: "binary64 0 = 0"
  by (simp add: binary64_def)

lemma binary64_1: "binary64 1 = 1"
  using binary64_eval [of 0 1 "2 ^ 52"] by (simp add: power_int_minus)

lemma binary64_2: "binary64 2 = 2"
  using binary64_eval [of 1 2 "2 ^ 52"] by (simp add: power_int_minus)

lemma binary64_4: "binary64 4 = 4"
  using binary64_eval [of 2 4 "2 ^ 52"] by (simp add: power_int_minus)

lemmas binary64_small = binary64_0 binary64_1 binary64_2 binary64_4

text \<open>The double nearest to the square root of 2 is \<open>6369051672525773 / 2 ^ 52\<close>.\<close>

lemma binary64_sqrt2: "binary64 (sqrt 2) = 6369051672525773 / 2 ^ 52"
proof -
  have lo: "(6369051672525773 - 1 / 2) / 2 ^ 52 < sqrt 2"
    by (rule real_less_rsqrt) (simp add: power2_eq_square)
  have hi: "sqrt 2 < (6369051672525773 + 1 / 2) / 2 ^ 52"
    by (rule real_less_lsqrt) (simp_all add: power2_eq_square)
  have e: "sqrt 2 / 2 powi (0 - 52) = sqrt 2 * 2 ^ 52"
    by (simp add: power_int_minus field_simps)
  have l: "6369051672525773 - 1 / 2 < sqrt 2 * 2 ^ 52"
    using lo by (simp add: field_simps)
  have h: "sqrt 2 * 2 ^ 52 < 6369051672525773 + 1 / 2"
    using hi by (simp add: field_simps)
  have a: "\<bar>sqrt 2 / 2 powi (0 - 52) - of_int 6369051672525773\<bar> < 1 / 2"
  proof -
    have "- (1 / 2) < sqrt 2 * 2 ^ 52 - 6369051672525773" using l by linarith
    moreover have "sqrt 2 * 2 ^ 52 - 6369051672525773 < 1 / 2" using h by linarith
    ultimately have "\<bar>sqrt 2 * 2 ^ 52 - 6369051672525773\<bar> < 1 / 2"
      unfolding abs_less_iff by linarith
    then show ?thesis unfolding e by simp
  qed
  have b: "2 powi 0 \<le> \<bar>sqrt 2\<bar>" by simp
  have c: "\<bar>sqrt 2\<bar> < 2 powi (0 + 1)" using sqrt2_less_2 by simp
  show ?thesis
    using binary64_eval [OF b c _ a] by (simp add: power_int_minus field_simps)
qed

text \<open>Its square rounds up to the double after 2.\<close>

lemma binary64_square:
  "binary64 (6369051672525773 / 2 ^ 52 * (6369051672525773 / 2 ^ 52)) = 2 + 1 / 2 ^ 51"
proof -
  let ?x = "6369051672525773 / 2 ^ 52 * (6369051672525773 / 2 ^ 52) :: real"
  have b: "2 powi 1 \<le> \<bar>?x\<bar>" by simp
  have c: "\<bar>?x\<bar> < 2 powi (1 + 1)" by simp
  have a: "\<bar>?x / 2 powi (1 - 52) - of_int (2 ^ 52 + 1)\<bar> < 1 / 2"
    by (simp add: power_int_minus)
  show ?thesis
    using binary64_eval [OF b c _ a] by (simp add: power_int_minus)
qed

text \<open>2 divided by that double rounds to the second double before 1.\<close>

lemma binary64_quotient: "binary64 (2 / (2 + 1 / 2 ^ 51)) = 1 - 1 / 2 ^ 52"
proof -
  let ?x = "2 / (2 + 1 / 2 ^ 51) :: real"
  have b: "2 powi (- 1) \<le> \<bar>?x\<bar>" by (simp add: power_int_minus)
  have c: "\<bar>?x\<bar> < 2 powi (- 1 + 1)" by simp
  have a: "\<bar>?x / 2 powi (- 1 - 52) - of_int (2 ^ 53 - 2)\<bar> < 1 / 2"
    by (simp add: power_int_minus)
  show ?thesis
    using binary64_eval [OF b c _ a] by (simp add: power_int_minus)
qed

subsection \<open>Cosine similarity\<close>

lemma foldl_plus: "foldl (\<lambda>s x. s + x) a xs = a + sum_list (xs::real list)"
  by (induction xs arbitrary: a) auto

lemma py_sum_exact: "py_sum (\<lambda>x. x) xs = sum_list xs"
  by (simp add: py_sum_def foldl_plus)

lemma foldl_zeros:
  "fl 0 = (0::real) \<Longrightarrow> \<forall>x\<in>set xs. x = 0 \<Longrightarrow> foldl (\<lambda>s x. fl (s + x)) 0 xs = 0"
  by (induction xs) auto

lemma magnitude_zeros:
  assumes "fl 0 = 0" "\<forall>x\<in>set z. x = 0"
  shows "magnitude fl z = 0"
proof -
  have "\<forall>x\<in>set (map (\<lambda>a. fl (a * a)) z). x = 0" using assms by auto
  then have "py_sum fl (map (\<lambda>a. fl (a * a)) z) = 0"
    unfolding py_sum_def using assms(1) foldl_zeros [of fl "map (\<lambda>a. fl (a * a)) z"] by blast
  then show ?thesis using assms(1) by (simp add: magnitude_def)
qed

lemma sum_squares_nonneg: "0 \<le> sum_list (map (\<lambda>a. a * a) (v::real list))"
  by (induction v) auto

lemma sum_squares_zero_iff:
  "sum_list (map (\<lambda>a. a * a) (v::real list)) = 0 \<longleftrightarrow> (\<forall>x\<in>set v. x = 0)"
proof (induction v)
  case Nil
  then show ?case by simp
next
  case (Cons a v)
  have "a * a + sum_list (map (\<lambda>a. a * a) v) = 0
          \<longleftrightarrow> a * a = 0 \<and> sum_list (map (\<lambda>a. a * a) v) = 0"
    using sum_squares_nonneg [of v] by (smt (verit) zero_le_square)
  with Cons show ?case by simp
qed

lemma magnitude_exact: "magnitude (\<lambda>x. x) v = sqrt (sum_list (map (\<lambda>a. a * a) v))"
  by (simp add: magnitude_def py_sum_exact)

lemma magnitude_exact_zero_iff: "magnitude (\<lambda>x. x) v = 0 \<longleftrightarrow> (\<forall>x\<in>set v. x = 0)"
  by (simp add: magnitude_exact sum_squares_zero_iff)

lemma dot_self:
  "sum_list (map (\<lambda>(a, b). a * b) (zip v v)) = sum_list (map (\<lambda>a. a * a) (v::real list))"
  by (induction v) auto

lemma cosine_sim_exact_self:
  assumes nz: "\<exists>x\<in>set v. x \<noteq> 0"
  shows "cosine_sim (\<lambda>x. x) v v = 1"
proof -
  let ?m = "magnitude (\<lambda>x. x) v"
  have m: "?m \<noteq> 0" using nz by (simp add: magnitude_exact_zero_iff)
  from nz have ne: "v \<noteq> []" by auto
  have sq: "?m * ?m = sum_list (map (\<lambda>a. a * a) v)"
    by (simp add: magnitude_exact sum_squares_nonneg)
  have "cosine_sim (\<lambda>x. x) v v = sum_list (map (\<lambda>a. a * a) v) / (?m * ?m)"
    using m ne by (simp add: cosine_sim_def py_sum_exact dot_self Let_def)
  also have "\<dots> = 1"
    using m by (simp add: sq [symmetric])
  finally show ?thesis .
qed

text \<open>
  C3, as the specification states it, does not hold. With the rounding of the double
  format, the similarity of the vector \<open>[1.0, 1.0]\<close> to itself is \<open>1 - 1 / 2 ^ 52\<close>, the
  float that Python prints as 0.9999999999999998: the magnitude is the double nearest
  to the square root of 2, the product of the two magnitudes rounds to the double after
  2, and 2 divided by it rounds to the second double before 1.
\<close>

theorem cosine_sim_self_counterexample:
  "cosine_sim binary64 [1, 1] [1, 1] = 1 - 1 / 2 ^ 52 \<and> cosine_sim binary64 [1, 1] [1, 1] \<noteq> 1"
proof -
  have s: "py_sum binary64 [1, 1] = 2"
    by (simp add: py_sum_def binary64_small)
  have m: "magnitude binary64 [1, 1] = 6369051672525773 / 2 ^ 52"
    by (simp add: magnitude_def binary64_small s binary64_sqrt2)
  have "cosine_sim binary64 [1, 1] [1, 1]
          = binary64 (2 / binary64 (6369051672525773 / 2 ^ 52 * (6369051672525773 / 2 ^ 52)))"
    unfolding cosine_sim_def m by (simp add: binary64_small s)
  also have "\<dots> = 1 - 1 / 2 ^ 52"
    by (simp only: binary64_square binary64_quotient)
  finally show ?thesis by simp
qed

text \<open>
  C3, amended. With any rounding that keeps 0, \<open>cosine_sim a b\<close> is 0 when the lengths
  differ and when the magnitude computed for either vector is 0, and the magnitude
  computed for the empty vector and for every all-zero vector is 0; the rounding of the
  double format keeps 0. In exact arithmetic \<open>cosine_sim v v\<close> is 1 for every vector \<open>v\<close>
  with a component that is not 0.
\<close>

theorem cosine_sim_degenerate_and_exact_self:
  assumes "fl 0 = 0"
  shows "(length a \<noteq> length b \<longrightarrow> cosine_sim fl a b = 0) \<and>
         (magnitude fl a = 0 \<or> magnitude fl b = 0 \<longrightarrow> cosine_sim fl a b = 0) \<and>
         magnitude fl [] = 0 \<and>
         ((\<forall>x\<in>set z. x = 0) \<longrightarrow> magnitude fl z = 0) \<and>
         binary64 0 = 0 \<and>
         ((\<exists>x\<in>set v. x \<noteq> 0) \<longrightarrow> cosine_sim (\<lambda>x. x) v v = 1)"
  using assms cosine_sim_exact_self [of v] magnitude_zeros [of fl z] magnitude_zeros [of fl "[]"]
  by (simp add: cosine_sim_def Let_def binary64_0)

theorem cosine_sim_degenerate_and_exact_self_witness:
  "binary64 0 = 0 \<and>
   cosine_sim binary64 [1, 2] [1] = 0 \<and> cosine_sim binary64 [3, 4] [0, 0] = 0 \<and>
   cosine_sim binary64 [] [] = 0 \<and> cosine_sim (\<lambda>x. x) [3, 4] [3, 4] = 1"
proof -
  have z: "magnitude binary64 [0, 0] = 0"
    using cosine_sim_degenerate_and_exact_self [of binary64 "[]" "[]" "[0, 0]" "[]"] binary64_0
    by simp
  show ?thesis
    using cosine_sim_degenerate_and_exact_self [of binary64 "[1, 2]" "[1]" "[]" "[3, 4]"]
      cosine_sim_degenerate_and_exact_self [of binary64 "[3, 4]" "[0, 0]" "[]" "[3, 4]"]
      cosine_sim_degenerate_and_exact_self [of binary64 "[]" "[]" "[]" "[3, 4]"] z binary64_0
    by simp
qed

subsection \<open>Evaluation of the concrete inputs\<close>

lemmas path_eval =
  get_mem_path_def MEM_DIR_def SESS_DIR_def DATA_DIR_def path_join_def re_sub_unsafe_def
  is_word_def is_ascii_alnum_def

lemma demo_alice_path:
  "get_mem_path demo_env ''alice'' = [''srv'', ''data'', ''memories'', ''alice.json'']"
  by (simp add: path_eval demo_env_def)

lemma demo_bob_path:
  "get_mem_path demo_env ''../bob'' = [''srv'', ''data'', ''memories'', ''bob.json'']"
  by (simp add: path_eval demo_env_def)

lemma strip_hello: "strip '' hello '' = ''hello''" "strip ''hello'' = ''hello''"
  by (simp_all add: strip_def is_space_def)

subsection \<open>Retrieval\<close>

lemma insort_key_map:
  "insort_key k (f x) (map f ys) = map f (insort_key (\<lambda>y. k (f y)) x ys)"
  by (induction ys) auto

lemma sort_key_map: "sort_key k (map f xs) = map f (sort_key (\<lambda>y. k (f y)) xs)"
  by (induction xs) (auto simp: insort_key_map)

lemma sort_reverse_map: "sort_reverse k (map f xs) = map f (sort_reverse (\<lambda>y. k (f y)) xs)"
  by (simp add: sort_reverse_def sort_key_map rev_map)

lemma slice_to_map: "slice_to n (map f xs) = map f (slice_to n xs)"
  by (simp add: slice_to_def take_map)

lemma mset_sort_reverse: "mset (sort_reverse k xs) = mset xs"
  by (simp add: sort_reverse_def)

lemma sorted_sort_reverse: "sorted_wrt (\<lambda>a b. k a \<ge> k b) (sort_reverse k xs)"
proof -
  have "sorted (map k (sort_key k (rev xs)))" by (rule sorted_sort_key)
  then have "sorted_wrt (\<lambda>a b. k a \<le> k b) (sort_key k (rev xs))"
    by (simp add: sorted_wrt_map)
  then show ?thesis
    by (simp add: sort_reverse_def sorted_wrt_rev)
qed

lemma stable_sort_reverse:
  "filter (\<lambda>x. k x = s) (sort_reverse k xs) = filter (\<lambda>x. k x = s) xs"
  by (simp add: sort_reverse_def rev_filter [symmetric] sort_key_stable)

lemma score_items_fields:
  "list_all has_fields data \<Longrightarrow>
   score_items fl q data = Inr (map (\<lambda>it. (similarity fl q it, text_of it)) data)"
  by (induction data) (auto simp: has_fields_def similarity_def text_of_def)

lemma top_texts_fields:
  "top_texts n (map (\<lambda>it. (similarity fl q it, text_of it)) data)
     = map text_of (slice_to n (sort_reverse (similarity fl q) data))"
  by (simp add: top_texts_def sort_reverse_map slice_to_map)

lemma join_Cons: "join sep (x # xs) = x @ concat (map (\<lambda>y. sep @ y) xs)"
  by (induction xs arbitrary: x) auto

lemma context_block_lines:
  "context_block res =
     (case res of
        [] \<Rightarrow> []
      | t # ts \<Rightarrow>
          [CHR 0x0A, CHR 0x0A] @ ''[Relevant Context]:'' @ [CHR 0x0A] @ ''- '' @ t
          @ concat (map (\<lambda>u. [CHR 0x0A] @ ''- '' @ u) ts))"
  by (cases res) (simp_all add: context_block_def join_Cons comp_def)

text \<open>
  C1. On a store whose records have a vector and a text, and with a query vector at
  hand, \<open>find_relevant_npy\<close> returns the texts of the first \<open>top_k\<close> records of a ranking
  of the store, each on a line of its own after a hyphen and a space, below the line
  \<open>[Relevant Context]:\<close> that follows two line feeds; it returns the empty string when
  there is no such record. The ranking holds the stored records, each as often as the
  store, in non-increasing similarity to the query vector, and the records of one
  similarity stand in it in the order in which they were appended. The similarity is
  the one that \<open>cosine_sim\<close> computes, whatever the rounding of the arithmetic. For
  \<open>top_k\<close> from 0 on, and so for its default 3, the slice \<open>xs[:top_k]\<close> is the first
  \<open>top_k\<close> entries.
\<close>

theorem find_relevant_npy_ranked:
  assumes store: "fs (get_mem_path e user_id) = Some (Doc (JList data))"
    and records: "list_all has_fields data"
    and q: "get_embedding e query = Some q_vec" "q_vec \<noteq> []"
  shows "\<exists>ranked.
           mset ranked = mset data \<and>
           sorted_wrt (\<lambda>a b. similarity (float_round e) q_vec a \<ge> similarity (float_round e) q_vec b)
             ranked \<and>
           (\<forall>s. filter (\<lambda>it. similarity (float_round e) q_vec it = s) ranked
                  = filter (\<lambda>it. similarity (float_round e) q_vec it = s) data) \<and>
           find_relevant_npy e fs user_id query top_k
             = Inr (case map text_of (slice_to top_k ranked) of
                      [] \<Rightarrow> []
                    | t # ts \<Rightarrow>
                        [CHR 0x0A, CHR 0x0A] @ ''[Relevant Context]:'' @ [CHR 0x0A] @ ''- '' @ t
                        @ concat (map (\<lambda>u. [CHR 0x0A] @ ''- '' @ u) ts)) \<and>
           (0 \<le> top_k \<longrightarrow> slice_to top_k ranked = take (nat top_k) ranked) \<and>
           slice_to 3 ranked = take 3 ranked"
proof (intro exI conjI)
  let ?sim = "similarity (float_round e) q_vec"
  let ?r = "sort_reverse ?sim data"
  show "mset ?r = mset data" by (rule mset_sort_reverse)
  show "sorted_wrt (\<lambda>a b. ?sim a \<ge> ?sim b) ?r"
    by (rule sorted_sort_reverse)
  show "\<forall>s. filter (\<lambda>it. ?sim it = s) ?r = filter (\<lambda>it. ?sim it = s) data"
    by (simp add: stable_sort_reverse)
  have "find_relevant_npy e fs user_id query top_k
          = Inr (context_block (map text_of (slice_to top_k ?r)))"
  proof (cases "data = []")
    case True
    then show ?thesis
      using store q
      by (simp add: find_relevant_npy_def sort_reverse_def slice_to_def context_block_def)
  next
    case False
    then show ?thesis
      using store q score_items_fields [OF records, of "float_round e" q_vec]
      by (simp add: find_relevant_npy_def top_texts_fields)
  qed
  then show "find_relevant_npy e fs user_id query top_k
          = Inr (case map text_of (slice_to top_k ?r) of
                   [] \<Rightarrow> []
                 | t # ts \<Rightarrow>
                     [CHR 0x0A, CHR 0x0A] @ ''[Relevant Context]:'' @ [CHR 0x0A] @ ''- '' @ t
                     @ concat (map (\<lambda>u. [CHR 0x0A] @ ''- '' @ u) ts))"
    by (simp only: context_block_lines)
  show "0 \<le> top_k \<longrightarrow> slice_to top_k ?r = take (nat top_k) ?r"
    by (simp add: slice_to_def)
  show "slice_to 3 ?r = take 3 ?r"
    by (simp add: slice_to_def)
qed

text \<open>
  The call on the store of three records, evaluated: the two records of similarity 1
  come first, in the order of the store, and the record of similarity 0 is last.
\<close>

lemma find_relevant_npy_demo:
  "find_relevant_npy demo_env demo_store ''alice'' ''hello'' 3
     = Inr ([CHR 0x0A, CHR 0x0A] @ ''[Relevant Context]:'' @ [CHR 0x0A] @ ''- b'' @ [CHR 0x0A]
            @ ''- c'' @ [CHR 0x0A] @ ''- a'') \<and>
   find_relevant_npy demo_env demo_store ''alice'' ''hello'' 2
     = Inr ([CHR 0x0A, CHR 0x0A] @ ''[Relevant Context]:'' @ [CHR 0x0A] @ ''- b'' @ [CHR 0x0A]
            @ ''- c'')"
  unfolding find_relevant_npy_def demo_alice_path
  by (simp add: demo_store_def demo_data_def demo_item_def
      demo_env_def cosine_sim_def magnitude_def py_sum_def binary64_small top_texts_def
      sort_reverse_def slice_to_def context_block_def)

theorem find_relevant_npy_ranked_witness:
  "demo_store (get_mem_path demo_env ''alice'') = Some (Doc (JList demo_data)) \<and>
   list_all has_fields demo_data \<and>
   get_embedding demo_env ''hello'' = Some [1, 0] \<and>
   (\<exists>ranked.
      mset ranked = mset demo_data \<and>
      sorted_wrt (\<lambda>a b. similarity binary64 [1, 0] a \<ge> similarity binary64 [1, 0] b) ranked \<and>
      (\<forall>s. filter (\<lambda>it. similarity binary64 [1, 0] it = s) ranked
             = filter (\<lambda>it. similarity binary64 [1, 0] it = s) demo_data) \<and>
      (case map text_of (take 3 ranked) of
         [] \<Rightarrow> []
       | t # ts \<Rightarrow>
           [CHR 0x0A, CHR 0x0A] @ ''[Relevant Context]:'' @ [CHR 0x0A] @ ''- '' @ t
           @ concat (map (\<lambda>u. [CHR 0x0A] @ ''- '' @ u) ts))
        = [CHR 0x0A, CHR 0x0A] @ ''[Relevant Context]:'' @ [CHR 0x0A] @ ''- b'' @ [CHR 0x0A]
          @ ''- c'' @ [CHR 0x0A] @ ''- a'') \<and>
   find_relevant_npy demo_env demo_store ''alice'' ''hello'' 3
     = Inr ([CHR 0x0A, CHR 0x0A] @ ''[Relevant Context]:'' @ [CHR 0x0A] @ ''- b'' @ [CHR 0x0A]
            @ ''- c'' @ [CHR 0x0A] @ ''- a'')"
proof -
  have h1: "demo_store (get_mem_path demo_env ''alice'') = Some (Doc (JList demo_data))"
    by (simp add: demo_alice_path demo_store_def)
  have h2: "list_all has_fields demo_data"
    by (simp add: demo_data_def demo_item_def has_fields_def)
  have h3: "get_embedding demo_env ''hello'' = Some [1, 0]"
    by (simp add: demo_env_def)
  have h4: "[1, 0] \<noteq> ([] :: real list)" by simp
  have fl: "float_round demo_env = binary64" by (simp add: demo_env_def)
  have ev: "find_relevant_npy demo_env demo_store ''alice'' ''hello'' 3
     = Inr ([CHR 0x0A, CHR 0x0A] @ ''[Relevant Context]:'' @ [CHR 0x0A] @ ''- b'' @ [CHR 0x0A]
            @ ''- c'' @ [CHR 0x0A] @ ''- a'')"
    using find_relevant_npy_demo by blast
  from find_relevant_npy_ranked
         [of demo_store demo_env "''alice''" demo_data "''hello''" "[1, 0]" 3, OF h1 h2 h3 h4]
  obtain ranked where r:
    "mset ranked = mset demo_data"
    "sorted_wrt (\<lambda>a b. similarity binary64 [1, 0] a \<ge> similarity binary64 [1, 0] b) ranked"
    "\<forall>s. filter (\<lambda>it. similarity binary64 [1, 0] it = s) ranked
             = filter (\<lambda>it. similarity binary64 [1, 0] it = s) demo_data"
    "find_relevant_npy demo_env demo_store ''alice'' ''hello'' 3
       = Inr (case map text_of (slice_to 3 ranked) of
                [] \<Rightarrow> []
              | t # ts \<Rightarrow>
                  [CHR 0x0A, CHR 0x0A] @ ''[Relevant Context]:'' @ [CHR 0x0A] @ ''- '' @ t
                  @ concat (map (\<lambda>u. [CHR 0x0A] @ ''- '' @ u) ts))"
    "slice_to 3 ranked = take 3 ranked"
    unfolding fl by blast
  have "(case map text_of (take 3 ranked) of
         [] \<Rightarrow> []
       | t # ts \<Rightarrow>
           [CHR 0x0A, CHR 0x0A] @ ''[Relevant Context]:'' @ [CHR 0x0A] @ ''- '' @ t
           @ concat (map (\<lambda>u. [CHR 0x0A] @ ''- '' @ u) ts))
        = [CHR 0x0A, CHR 0x0A] @ ''[Relevant Context]:'' @ [CHR 0x0A] @ ''- b'' @ [CHR 0x0A]
          @ ''- c'' @ [CHR 0x0A] @ ''- a''"
    using r(4) ev unfolding r(5) by (simp only: sum.inject)
  with r(1-3) h1 h2 h3 ev show ?thesis by blast
qed

subsection \<open>Paths and user isolation\<close>

lemma slash_not_safe: "\<not> safe_char uw CHR ''/''"
  by (simp add: safe_char_def is_word_def is_ascii_alnum_def)

lemma dot_not_safe: "\<not> safe_char uw CHR ''.''"
  by (simp add: safe_char_def is_word_def is_ascii_alnum_def)

lemma re_sub_unsafe_chars: "c \<in> set (re_sub_unsafe uw s) \<Longrightarrow> safe_char uw c"
  by (simp add: re_sub_unsafe_def safe_char_def)

lemma split_on_no_sep: "sep \<notin> set s \<Longrightarrow> split_on sep s = [s]"
  by (induction s) auto

lemma path_join_name:
  assumes "CHR ''/'' \<notin> set s" "s \<noteq> []" "s \<noteq> ''.''"
  shows "path_join base s = base @ [s]"
proof -
  from assms(1,2) have "hd s \<noteq> CHR ''/''" by (cases s) auto
  with assms show ?thesis by (simp add: path_join_def split_on_no_sep)
qed

lemma path_join_empty: "path_join base [] = base"
  by (simp add: path_join_def)

lemma MEM_DIR_eq: "MEM_DIR e = BASE_DIR e @ [''data'', ''memories'']"
  by (simp add: MEM_DIR_def DATA_DIR_def path_join_name)

lemma SESS_DIR_eq: "SESS_DIR e = BASE_DIR e @ [''data'', ''sessions'']"
  by (simp add: SESS_DIR_def DATA_DIR_def path_join_name)

lemma file_name_no_slash: "CHR ''/'' \<notin> set (re_sub_unsafe uw u @ ''.json'')"
  using re_sub_unsafe_chars [of "CHR ''/''" uw u] slash_not_safe [of uw] by auto

lemma get_mem_path_eq:
  "get_mem_path e u = MEM_DIR e @ [re_sub_unsafe (uni_word e) u @ ''.json'']"
proof -
  let ?n = "re_sub_unsafe (uni_word e) u @ ''.json''"
  have "?n \<noteq> []" by simp
  moreover have "?n \<noteq> ''.''" by (cases "re_sub_unsafe (uni_word e) u") auto
  ultimately have "path_join (MEM_DIR e) ?n = MEM_DIR e @ [?n]"
    using file_name_no_slash [of "uni_word e" u] by (intro path_join_name)
  then show ?thesis
    by (simp only: get_mem_path_def Let_def)
qed

lemma get_mem_path_inj:
  "BASE_DIR e1 = BASE_DIR e2 \<Longrightarrow> uni_word e1 = uni_word e2 \<Longrightarrow>
   get_mem_path e1 a = get_mem_path e2 b
     \<longleftrightarrow> re_sub_unsafe (uni_word e1) a = re_sub_unsafe (uni_word e2) b"
  by (simp add: get_mem_path_eq MEM_DIR_eq)

lemma session_dir_eq:
  "path_join (SESS_DIR e) (re_sub_unsafe uw u)
     = SESS_DIR e @ (if re_sub_unsafe uw u = [] then [] else [re_sub_unsafe uw u])"
proof (cases "re_sub_unsafe uw u = []")
  case True
  then show ?thesis by (simp add: path_join_empty)
next
  case False
  have "CHR ''/'' \<notin> set (re_sub_unsafe uw u)"
    using re_sub_unsafe_chars [of "CHR ''/''" uw u] slash_not_safe [of uw] by auto
  moreover have "re_sub_unsafe uw u \<noteq> ''.''"
    using re_sub_unsafe_chars [of "CHR ''.''" uw u] dot_not_safe [of uw] by auto
  ultimately show ?thesis using False by (simp add: path_join_name)
qed

lemma save_memory_npy_other:
  assumes "save_memory_npy e fs a t role = Inr fs'" "p \<noteq> get_mem_path e a"
  shows "fs' p = fs p"
  using assms
  by (auto simp: save_memory_npy_def Let_def split: if_splits option.splits json_doc.splits)

lemma find_relevant_npy_cong:
  "fs' (get_mem_path e u) = fs (get_mem_path e u) \<Longrightarrow>
   find_relevant_npy e fs' u query k = find_relevant_npy e fs u query k"
  by (simp add: find_relevant_npy_def)

text \<open>
  C5. Let the sanitised forms of the identifiers \<open>a\<close> and \<open>b\<close> differ, and let an append
  under \<open>a\<close> turn the store \<open>fs\<close> into \<open>fs'\<close>, at any time and with any backend. Then the
  file of \<open>b\<close> is the same in \<open>fs'\<close> as in \<open>fs\<close>, and so are what an append under \<open>b\<close>
  loads and what retrieval under \<open>b\<close> returns. The file of \<open>b\<close> is the entry
  \<open>data/memories/<sanitised b>.json\<close> of the program's directory: the sanitised
  identifier consists of word characters and hyphens, the file name holds no slash and
  is not \<open>..\<close>. The session directory of \<open>b\<close>, which \<open>get_user_session_dir\<close> returns and
  \<open>analyze_user_trends\<close> reads, is \<open>data/sessions/<sanitised b>\<close>, and \<open>data/sessions\<close>
  itself when the sanitised identifier is empty.
\<close>

theorem user_isolation:
  assumes dirs: "BASE_DIR e' = BASE_DIR e" "uni_word e' = uni_word e"
    and differ: "re_sub_unsafe (uni_word e) a \<noteq> re_sub_unsafe (uni_word e) b"
    and append: "save_memory_npy e' fs a t role = Inr fs'"
  shows "fs' (get_mem_path e b) = fs (get_mem_path e b) \<and>
         load_data fs' (get_mem_path e b) = load_data fs (get_mem_path e b) \<and>
         find_relevant_npy e fs' b query top_k = find_relevant_npy e fs b query top_k \<and>
         get_mem_path e b
           = BASE_DIR e @ [''data'', ''memories'', re_sub_unsafe (uni_word e) b @ ''.json''] \<and>
         (\<forall>c \<in> set (re_sub_unsafe (uni_word e) b). safe_char (uni_word e) c) \<and>
         CHR ''/'' \<notin> set (re_sub_unsafe (uni_word e) b @ ''.json'') \<and>
         re_sub_unsafe (uni_word e) b @ ''.json'' \<noteq> ''..'' \<and>
         path_join (SESS_DIR e) (re_sub_unsafe (uni_word e) b)
           = BASE_DIR e @ [''data'', ''sessions'']
             @ (if re_sub_unsafe (uni_word e) b = [] then [] else [re_sub_unsafe (uni_word e) b]) \<and>
         (b \<noteq> [] \<longrightarrow>
            fst (get_user_session_dir e sfs (Some b))
              = Some (path_join (SESS_DIR e) (re_sub_unsafe (uni_word e) b)))"
proof -
  have ne: "get_mem_path e b \<noteq> get_mem_path e' a"
    using differ dirs get_mem_path_inj [of e e' b a] by auto
  have same: "fs' (get_mem_path e b) = fs (get_mem_path e b)"
    by (rule save_memory_npy_other [OF append ne])
  have dd: "re_sub_unsafe (uni_word e) b @ ''.json'' \<noteq> ''..''"
    by (cases "re_sub_unsafe (uni_word e) b" rule: rev_cases) auto
  have p: "get_mem_path e b
             = BASE_DIR e @ [''data'', ''memories'', re_sub_unsafe (uni_word e) b @ ''.json'']"
    by (simp only: get_mem_path_eq MEM_DIR_eq append.assoc append_Cons append_Nil)
  have s: "path_join (SESS_DIR e) (re_sub_unsafe (uni_word e) b)
           = BASE_DIR e @ [''data'', ''sessions'']
             @ (if re_sub_unsafe (uni_word e) b = [] then [] else [re_sub_unsafe (uni_word e) b])"
    using session_dir_eq [of e "uni_word e" b] by (simp only: SESS_DIR_eq append.assoc)
  have l: "load_data fs' (get_mem_path e b) = load_data fs (get_mem_path e b)"
    using same by (simp only: load_data_def)
  have c: "\<forall>c \<in> set (re_sub_unsafe (uni_word e) b). safe_char (uni_word e) c"
    using re_sub_unsafe_chars by blast
  have g: "b \<noteq> [] \<longrightarrow>
            fst (get_user_session_dir e sfs (Some b))
              = Some (path_join (SESS_DIR e) (re_sub_unsafe (uni_word e) b))"
    by (simp add: get_user_session_dir_def Let_def)
  show ?thesis
    using same l find_relevant_npy_cong [of fs' e b fs query top_k] p c
      file_name_no_slash [of "uni_word e" b] dd s g
    by blast
qed

lemma save_memory_npy_demo_bob:
  "save_memory_npy demo_env demo_store ''../bob'' ''hello'' ''user''
     = Inr (demo_store([''srv'', ''data'', ''memories'', ''bob.json'']
              \<mapsto> Doc (JList [new_record demo_env ''user'' ''hello'' [1, 0]])))"
proof -
  have "load_data demo_store [''srv'', ''data'', ''memories'', ''bob.json''] = JList []"
    by (simp add: load_data_def demo_store_def)
  moreover have "get_embedding demo_env ''hello'' = Some [1, 0]"
    by (simp add: demo_env_def)
  ultimately show ?thesis
    unfolding save_memory_npy_def demo_bob_path by (simp add: strip_hello)
qed

theorem user_isolation_witness:
  "re_sub_unsafe (uni_word demo_env) ''../bob'' \<noteq> re_sub_unsafe (uni_word demo_env) ''alice'' \<and>
   save_memory_npy demo_env demo_store ''../bob'' ''hello'' ''user''
     = Inr (demo_store([''srv'', ''data'', ''memories'', ''bob.json'']
              \<mapsto> Doc (JList [new_record demo_env ''user'' ''hello'' [1, 0]]))) \<and>
   find_relevant_npy demo_env
       (demo_store([''srv'', ''data'', ''memories'', ''bob.json'']
              \<mapsto> Doc (JList [new_record demo_env ''user'' ''hello'' [1, 0]])))
       ''alice'' ''hello'' 3
     = find_relevant_npy demo_env demo_store ''alice'' ''hello'' 3 \<and>
   get_mem_path demo_env ''alice'' = [''srv'', ''data'', ''memories'', ''alice.json'']"
proof -
  have d: "re_sub_unsafe (uni_word demo_env) ''../bob'' \<noteq> re_sub_unsafe (uni_word demo_env) ''alice''"
    by (simp add: re_sub_unsafe_def is_word_def is_ascii_alnum_def demo_env_def)
  have b: "BASE_DIR demo_env = [''srv'']" by (simp add: demo_env_def)
  have r: "re_sub_unsafe (uni_word demo_env) ''alice'' = ''alice''"
    by (simp add: re_sub_unsafe_def is_word_def is_ascii_alnum_def demo_env_def)
  show ?thesis
    using user_isolation [OF refl refl d save_memory_npy_demo_bob, of "''hello''" 3] d
      save_memory_npy_demo_bob b r
    by simp
qed

subsection \<open>Appends that change nothing, retrievals that return nothing\<close>

text \<open>
  C6. When the text is blank after \<open>strip\<close>, or the embedding is unavailable or empty,
  \<open>save_memory_npy\<close> returns without an exception and the file system is the one it was
  given.
\<close>

theorem save_memory_npy_noop:
  assumes "strip t = [] \<or> get_embedding e t = None \<or> get_embedding e t = Some []"
  shows "save_memory_npy e fs user_id t role = Inr fs"
  using assms by (auto simp: save_memory_npy_def)

theorem save_memory_npy_noop_witness:
  "strip [CHR 0x20, CHR 0x09, CHR 0x0A] = [] \<and>
   save_memory_npy demo_env demo_store ''alice'' [CHR 0x20, CHR 0x09, CHR 0x0A] ''user'' = Inr demo_store \<and>
   get_embedding demo_env ''good morning'' = None \<and>
   save_memory_npy demo_env demo_store ''alice'' ''good morning'' ''user'' = Inr demo_store"
proof -
  have b: "strip [CHR 0x20, CHR 0x09, CHR 0x0A] = []"
    by (simp add: strip_def is_space_def)
  have n: "get_embedding demo_env ''good morning'' = None"
    by (simp add: demo_env_def)
  show ?thesis
    using save_memory_npy_noop [of "[CHR 0x20, CHR 0x09, CHR 0x0A]" demo_env demo_store "''alice''" "''user''"]
      save_memory_npy_noop [of "''good morning''" demo_env demo_store "''alice''" "''user''"] b n
    by simp
qed

text \<open>
  C7. \<open>find_relevant_npy\<close> returns the empty string, and no exception, when the file of
  the user is absent, is rejected by \<open>json.load\<close> or holds the empty list, and when the
  embedding of the query is unavailable or empty. What an append loads from a file that
  is absent or rejected is the empty list.
\<close>

theorem find_relevant_npy_empty:
  "(fs (get_mem_path e user_id) = None \<or>
    fs (get_mem_path e user_id) = Some Corrupt \<or>
    fs (get_mem_path e user_id) = Some (Doc (JList [])) \<or>
    get_embedding e query = None \<or> get_embedding e query = Some []
      \<longrightarrow> find_relevant_npy e fs user_id query top_k = Inr []) \<and>
   (fs p = None \<or> fs p = Some Corrupt \<longrightarrow> load_data fs p = JList [])"
  by (auto simp: find_relevant_npy_def load_data_def split: option.splits)

theorem find_relevant_npy_empty_witness:
  "find_relevant_npy demo_env Map.empty ''alice'' ''hello'' 3 = Inr [] \<and>
   find_relevant_npy demo_env [get_mem_path demo_env ''alice'' \<mapsto> Corrupt] ''alice'' ''hello'' 3 = Inr [] \<and>
   find_relevant_npy demo_env [get_mem_path demo_env ''alice'' \<mapsto> Doc (JList [])] ''alice'' ''hello'' 3 = Inr [] \<and>
   find_relevant_npy demo_env demo_store ''alice'' ''good morning'' 3 = Inr [] \<and>
   load_data Map.empty (get_mem_path demo_env ''alice'') = JList [] \<and>
   load_data [get_mem_path demo_env ''alice'' \<mapsto> Corrupt] (get_mem_path demo_env ''alice'') = JList []"
proof -
  let ?p = "get_mem_path demo_env ''alice''"
  have n: "get_embedding demo_env ''good morning'' = None"
    by (simp add: demo_env_def)
  show ?thesis
    using find_relevant_npy_empty [of Map.empty demo_env "''alice''" "''hello''" 3 ?p]
      find_relevant_npy_empty [of "[?p \<mapsto> Corrupt]" demo_env "''alice''" "''hello''" 3 ?p]
      find_relevant_npy_empty [of "[?p \<mapsto> Doc (JList [])]" demo_env "''alice''" "''hello''" 3 ?p]
      find_relevant_npy_empty [of demo_store demo_env "''alice''" "''good morning''" 3 ?p] n
    by simp
qed

subsection \<open>The invariant of the store\<close>

lemma wf_new_record: "strip t \<noteq> [] \<Longrightarrow> vec \<noteq> [] \<Longrightarrow> wf_item (new_record e role t vec)"
  by (simp add: wf_item_def new_record_def)

lemma good_at_load:
  "good_at fs p \<Longrightarrow> load_data fs p = JList (stored fs p) \<and> list_all wf_item (stored fs p)"
  by (auto simp: good_at_def load_data_def stored_def
      split: option.splits store_file.splits json_doc.splits)

lemma save_cases:
  assumes "good_at fs (get_mem_path e u)"
  shows "save_memory_npy e fs u t role =
           Inr (if strip t = [] then fs
                else case get_embedding e t of
                  None \<Rightarrow> fs
                | Some vec \<Rightarrow>
                    if vec = [] then fs
                    else fs(get_mem_path e u
                           \<mapsto> Doc (JList (stored fs (get_mem_path e u) @ [new_record e role t vec]))))"
  using good_at_load [OF assms]
  by (simp add: save_memory_npy_def Let_def split: option.splits)

lemma save_keeps_good:
  assumes g: "\<forall>p. good_at fs p" and s: "save_memory_npy e fs u t role = Inr fs'"
  shows "good_at fs' p"
proof -
  have gp: "good_at fs (get_mem_path e u)" using g by simp
  show ?thesis
    using s g good_at_load [OF gp] unfolding save_cases [OF gp]
    by (auto simp: good_at_def wf_new_record split: if_splits option.splits)
qed

lemma written_good: "written fs \<Longrightarrow> good_at fs p"
proof (induction arbitrary: p rule: written.induct)
  case start
  then show ?case by (simp add: good_at_def)
next
  case (append fs e user_id t role fs')
  then show ?case using save_keeps_good [of fs e user_id t role fs'] by blast
qed

lemma score_items_wf: "list_all wf_item d \<Longrightarrow> \<exists>scores. score_items fl q d = Inr scores"
  by (induction d) (auto simp: wf_item_def split: option.splits)

lemma find_relevant_npy_good:
  assumes "good_at fs (get_mem_path e u)"
  shows "\<exists>r. find_relevant_npy e fs u query k = Inr r"
proof (cases "fs (get_mem_path e u)")
  case None
  then show ?thesis by (simp add: find_relevant_npy_def)
next
  case (Some f)
  with assms obtain d where f: "f = Doc (JList d)" and wf: "list_all wf_item d"
    by (auto simp: good_at_def split: store_file.splits json_doc.splits)
  from score_items_wf [OF wf]
  obtain scores
    where "score_items (float_round e) (the (get_embedding e query)) d = Inr scores"
    by blast
  then show ?thesis using Some f
    by (auto simp: find_relevant_npy_def split: option.splits)
qed

lemma save_appends:
  assumes "save_memory_npy e fs u t role = Inr fs'"
    and "strip t \<noteq> []" "get_embedding e t = Some vec" "vec \<noteq> []"
  shows "stored fs' (get_mem_path e u) = stored fs (get_mem_path e u) @ [new_record e role t vec]"
    and "\<forall>p. p \<noteq> get_mem_path e u \<longrightarrow> fs' p = fs p"
  using assms
  by (auto simp: save_memory_npy_def Let_def stored_def load_data_def split: json_doc.splits)

text \<open>
  C10. In a store written by this subsystem alone, every file is a list of records that
  have the four keys, a text that is not blank and a vector that is not empty. On such
  a store \<open>save_memory_npy\<close> raises nothing and gives such a store again, and
  \<open>find_relevant_npy\<close> raises nothing. An append that writes, on any store, leaves the
  records it loaded as they were and in their places, adds the one new record at the
  end, and changes no other file.
\<close>

theorem append_invariant:
  assumes "written fs"
  shows "(fs p = None \<or> (\<exists>d. fs p = Some (Doc (JList d)) \<and> list_all wf_item d)) \<and>
         (\<exists>fs'. save_memory_npy e fs user_id t role = Inr fs' \<and> written fs') \<and>
         (\<forall>fs1 vec.
            save_memory_npy e fs0 user_id t role = Inr fs1 \<and>
            strip t \<noteq> [] \<and> get_embedding e t = Some vec \<and> vec \<noteq> [] \<longrightarrow>
              stored fs1 (get_mem_path e user_id)
                = stored fs0 (get_mem_path e user_id) @ [new_record e role t vec] \<and>
              wf_item (new_record e role t vec) \<and>
              (\<forall>p'. p' \<noteq> get_mem_path e user_id \<longrightarrow> fs1 p' = fs0 p')) \<and>
         (\<exists>r. find_relevant_npy e fs user_id query top_k = Inr r)"
proof (intro conjI)
  have g: "\<And>p. good_at fs p" using assms by (rule written_good)
  show "fs p = None \<or> (\<exists>d. fs p = Some (Doc (JList d)) \<and> list_all wf_item d)"
    using g [of p]
    by (auto simp: good_at_def split: option.splits store_file.splits json_doc.splits)
  show "\<exists>r. find_relevant_npy e fs user_id query top_k = Inr r"
    using g by (rule find_relevant_npy_good)
  obtain fs' where s: "save_memory_npy e fs user_id t role = Inr fs'"
    using save_cases [OF g [of "get_mem_path e user_id"]] by blast
  then show "\<exists>fs'. save_memory_npy e fs user_id t role = Inr fs' \<and> written fs'"
    using assms written.append by blast
  show "\<forall>fs1 vec.
            save_memory_npy e fs0 user_id t role = Inr fs1 \<and>
            strip t \<noteq> [] \<and> get_embedding e t = Some vec \<and> vec \<noteq> [] \<longrightarrow>
              stored fs1 (get_mem_path e user_id)
                = stored fs0 (get_mem_path e user_id) @ [new_record e role t vec] \<and>
              wf_item (new_record e role t vec) \<and>
              (\<forall>p'. p' \<noteq> get_mem_path e user_id \<longrightarrow> fs1 p' = fs0 p')"
    using save_appends [of e fs0 user_id t role] wf_new_record [of t _ e role] by blast
qed

lemma save_memory_npy_demo_first:
  "save_memory_npy demo_env Map.empty ''alice'' ''hello'' ''user''
     = Inr [get_mem_path demo_env ''alice''
              \<mapsto> Doc (JList [new_record demo_env ''user'' ''hello'' [1, 0]])]"
proof -
  have "get_embedding demo_env ''hello'' = Some [1, 0]"
    by (simp add: demo_env_def)
  then show ?thesis
    by (simp add: save_memory_npy_def strip_hello load_data_def)
qed

theorem append_invariant_witness:
  "written [get_mem_path demo_env ''alice''
              \<mapsto> Doc (JList [new_record demo_env ''user'' ''hello'' [1, 0]])] \<and>
   list_all wf_item [new_record demo_env ''user'' ''hello'' [1, 0]] \<and>
   (\<exists>fs'. save_memory_npy demo_env
              [get_mem_path demo_env ''alice''
                 \<mapsto> Doc (JList [new_record demo_env ''user'' ''hello'' [1, 0]])]
              ''alice'' ''hello'' ''assistant'' = Inr fs' \<and>
           stored fs' (get_mem_path demo_env ''alice'')
             = [new_record demo_env ''user'' ''hello'' [1, 0],
                new_record demo_env ''assistant'' ''hello'' [1, 0]]) \<and>
   (\<exists>r. find_relevant_npy demo_env
            [get_mem_path demo_env ''alice''
               \<mapsto> Doc (JList [new_record demo_env ''user'' ''hello'' [1, 0]])]
            ''alice'' ''hello'' 3 = Inr r)"
proof -
  let ?p = "get_mem_path demo_env ''alice''"
  let ?fs = "[?p \<mapsto> Doc (JList [new_record demo_env ''user'' ''hello'' [1, 0]])]"
  have w: "written ?fs"
    using written.append [OF written.start save_memory_npy_demo_first] .
  have emb: "get_embedding demo_env ''hello'' = Some [1, 0]"
    by (simp add: demo_env_def)
  have st: "stored ?fs ?p = [new_record demo_env ''user'' ''hello'' [1, 0]]"
    by (simp add: stored_def load_data_def)
  note inv = append_invariant [OF w, of ?p demo_env "''alice''" "''hello''" "''assistant''" ?fs "''hello''" 3]
  from inv obtain fs' where
    s: "save_memory_npy demo_env ?fs ''alice'' ''hello'' ''assistant'' = Inr fs'" by blast
  have "stored fs' ?p = stored ?fs ?p @ [new_record demo_env ''assistant'' ''hello'' [1, 0]]"
    using inv s emb by (simp add: strip_hello)
  then have a: "stored fs' ?p = [new_record demo_env ''user'' ''hello'' [1, 0],
                new_record demo_env ''assistant'' ''hello'' [1, 0]]"
    by (simp add: st)
  have wf: "list_all wf_item [new_record demo_env ''user'' ''hello'' [1, 0]]"
    using inv by simp
  have r: "\<exists>r. find_relevant_npy demo_env ?fs ''alice'' ''hello'' 3 = Inr r"
    using inv by blast
  show ?thesis using w wf s a r by blast
qed

subsection \<open>The chat endpoint\<close>

lemma save_value_string:
  "save_memory_value e fs uid (JStr t) role = save_memory_npy e fs uid t role"
  by (simp add: save_memory_value_def)

lemma save_twice:
  assumes "load_data fs (get_mem_path e uid) = JList d"
  shows "\<exists>fs1 fs2. save_memory_npy e fs uid t1 r1 = Inr fs1
                  \<and> save_memory_npy e fs1 uid t2 r2 = Inr fs2"
proof -
  have one: "\<And>f dd t r. load_data f (get_mem_path e uid) = JList dd \<Longrightarrow>
      \<exists>f' dd'. save_memory_npy e f uid t r = Inr f' \<and> load_data f' (get_mem_path e uid) = JList dd'"
    by (auto simp: save_memory_npy_def Let_def load_data_def split: option.splits)
  from one [OF assms, of t1 r1] obtain fs1 d1 where
    1: "save_memory_npy e fs uid t1 r1 = Inr fs1" "load_data fs1 (get_mem_path e uid) = JList d1"
    by blast
  from one [OF 1(2), of t2 r2] obtain fs2 where "save_memory_npy e fs1 uid t2 r2 = Inr fs2"
    by blast
  with 1 show ?thesis by blast
qed

text \<open>A turn whose generated text is false ends with status 500 and the store as it was.\<close>

lemma api_chat_no_text:
  assumes "session_user req = Some uid" "strip (message req) \<noteq> []"
    and "find_relevant_npy e fs uid (strip (message req)) 3 = Inr ctx"
    and "falsy (ollama_chat e
           (build_messages (get_system_prompt e) (analyze_user_trends e sfs uid 5) ctx
              (history req) (strip (message req))))"
  shows "api_chat e sfs fs req = (Json_error 500 ''backend-failed'', fs)"
  using assms by (simp add: api_chat_def Let_def)

text \<open>A turn whose generated text is a string that is not empty ends with the extracted reply.\<close>

lemma api_chat_reaches_reply:
  assumes "session_user req = Some uid" "strip (message req) \<noteq> []"
    and "find_relevant_npy e fs uid (strip (message req)) 3 = Inr ctx"
    and "load_data fs (get_mem_path e uid) = JList d"
    and "ollama_chat e
           (build_messages (get_system_prompt e) (analyze_user_trends e sfs uid 5) ctx
              (history req) (strip (message req))) = JStr t"
    and "t \<noteq> []"
  shows "fst (api_chat e sfs fs req) = chat_reply e t"
proof -
  from save_twice [OF assms(4), of "strip (message req)" "''user''" t "''assistant''"]
  obtain fs1 fs2 where "save_memory_npy e fs uid (strip (message req)) ''user'' = Inr fs1"
    "save_memory_npy e fs1 uid t ''assistant'' = Inr fs2" by blast
  then show ?thesis
    using assms(1,2,3,5,6) by (simp add: api_chat_def Let_def falsy_def save_value_string)
qed

lemma demo_request_fields:
  "session_user demo_request = Some ''alice''" "strip (message demo_request) = ''hello''"
  "history demo_request = []"
  by (simp_all add: demo_request_def strip_hello)

text \<open>
  C8. The code departs from the claim on an answer whose content is true and not a
  string, the number 42 for one: line 271 lets the turn pass, line 273 appends the
  record of the user's message, and line 274 raises at \<open>text.strip()\<close>. The turn fails
  and the store has grown by one record. On an answer that cannot be read the turn
  ends with status 500 and the store as it was.
\<close>

theorem api_chat_non_string_content:
  "api_chat demo_env_number Map.empty demo_store demo_request
     = (Uncaught AttributeError,
        demo_store([''srv'', ''data'', ''memories'', ''alice.json'']
          \<mapsto> Doc (JList (demo_data @ [new_record demo_env_number ''user'' ''hello'' [1, 0]])))) \<and>
   stored (snd (api_chat demo_env_number Map.empty demo_store demo_request))
       [''srv'', ''data'', ''memories'', ''alice.json'']
     = stored demo_store [''srv'', ''data'', ''memories'', ''alice.json'']
       @ [new_record demo_env_number ''user'' ''hello'' [1, 0]] \<and>
   api_chat demo_env Map.empty demo_store demo_request
     = (Json_error 500 ''backend-failed'', demo_store)"
proof -
  let ?p = "[''srv'', ''data'', ''memories'', ''alice.json'']"
  have p: "get_mem_path demo_env_number ''alice'' = ?p"
    by (simp add: path_eval demo_env_number_def demo_env_def)
  have c: "find_relevant_npy demo_env_number demo_store ''alice'' ''hello'' 3
             = Inr (context_block [''b'', ''c'', ''a''])"
    unfolding find_relevant_npy_def p
    by (simp add: demo_store_def demo_data_def demo_item_def demo_env_number_def demo_env_def
        cosine_sim_def magnitude_def py_sum_def binary64_small top_texts_def sort_reverse_def
        slice_to_def)
  have g: "\<And>msgs. ollama_chat demo_env_number msgs = JTruthy"
    by (simp add: ollama_chat_def demo_env_number_def)
  have emb: "get_embedding demo_env_number ''hello'' = Some [1, 0]"
    by (simp add: demo_env_number_def demo_env_def)
  have ld: "load_data demo_store ?p = JList demo_data"
    by (simp add: load_data_def demo_store_def)
  have s1: "save_memory_npy demo_env_number demo_store ''alice'' ''hello'' ''user''
              = Inr (demo_store(?p \<mapsto> Doc (JList (demo_data
                       @ [new_record demo_env_number ''user'' ''hello'' [1, 0]]))))"
    unfolding save_memory_npy_def p by (simp add: strip_hello emb ld)
  have a: "api_chat demo_env_number Map.empty demo_store demo_request
     = (Uncaught AttributeError,
        demo_store(?p \<mapsto> Doc (JList (demo_data
           @ [new_record demo_env_number ''user'' ''hello'' [1, 0]]))))"
    by (simp add: api_chat_def Let_def demo_request_fields c g falsy_def s1
        save_memory_value_def)
  have st: "stored (demo_store(?p \<mapsto> Doc (JList (demo_data
              @ [new_record demo_env_number ''user'' ''hello'' [1, 0]])))) ?p
            = stored demo_store ?p @ [new_record demo_env_number ''user'' ''hello'' [1, 0]]"
    by (simp add: stored_def load_data_def demo_store_def)
  have c0: "find_relevant_npy demo_env demo_store ''alice'' ''hello'' 3
             = Inr (context_block [''b'', ''c'', ''a''])"
    unfolding find_relevant_npy_def demo_alice_path
    by (simp add: demo_store_def demo_data_def demo_item_def demo_env_def
        cosine_sim_def magnitude_def py_sum_def binary64_small top_texts_def sort_reverse_def
        slice_to_def)
  have g0: "\<And>msgs. falsy (ollama_chat demo_env msgs)"
    by (simp add: ollama_chat_def demo_env_def falsy_def)
  have b: "api_chat demo_env Map.empty demo_store demo_request
             = (Json_error 500 ''backend-failed'', demo_store)"
    using api_chat_no_text [of demo_request "''alice''" demo_env demo_store
                               "context_block [''b'', ''c'', ''a'']" Map.empty]
      demo_request_fields c0 g0
    by simp
  show ?thesis using a st b by simp
qed

lemma get_or_usable:
  "obj k \<noteq> Some JTruthy \<Longrightarrow>
   get_or obj k dflt = Inr (case usable (obj k) of None \<Rightarrow> dflt | Some s \<Rightarrow> s)"
  by (auto simp: get_or_def usable_def split: option.splits jfield.splits)

lemma unusable_usable: "unusable f \<Longrightarrow> usable f = None \<and> f \<noteq> Some JTruthy"
  by (auto simp: unusable_def usable_def)

lemma strip_lower_neutral: "strip (lower ''neutral'') = ''neutral''"
  by (simp add: strip_def lower_def lower_char_def is_space_def)

lemma chat_reply_fields:
  assumes "safe_json e t ''emotion'' \<noteq> Some JTruthy" "safe_json e t ''reply'' \<noteq> Some JTruthy"
  shows "chat_reply e t
           = Json_reply
               (case usable (safe_json e t ''emotion'') of
                  None \<Rightarrow> ''neutral'' | Some s \<Rightarrow> strip (lower s))
               (strip (case usable (safe_json e t ''reply'') of None \<Rightarrow> t | Some s \<Rightarrow> s))"
  using assms
  by (simp add: chat_reply_def Let_def get_or_usable strip_lower_neutral split: option.splits)

lemma safe_json_absent:
  assumes "re_search_braces t = None \<or>
           (\<exists>m. re_search_braces t = Some m \<and>
              (json_loads e m = None \<or>
               (\<exists>obj. json_loads e m = Some obj \<and>
                  unusable (obj ''emotion'') \<and> unusable (obj ''reply''))))"
  shows "unusable (safe_json e t ''emotion'') \<and> unusable (safe_json e t ''reply'')"
  using assms
proof (elim disjE exE conjE)
  assume "re_search_braces t = None"
  then show ?thesis by (simp add: safe_json_def unusable_def)
next
  fix m assume "re_search_braces t = Some m" "json_loads e m = None"
  then show ?thesis by (simp add: safe_json_def unusable_def)
next
  fix m obj
  assume "re_search_braces t = Some m" "json_loads e m = Some obj"
    "unusable (obj ''emotion'')" "unusable (obj ''reply'')"
  then show ?thesis by (simp add: safe_json_def)
qed

lemma re_search_braces_demo:
  "re_search_braces ''ok {not json} bye'' = Some ''{not json}'' \<and>
   re_search_braces ''} only {'' = None \<and>
   re_search_braces ''a {x} b {y} c'' = Some ''{x} b {y}'' \<and>
   re_search_braces emotion_only = Some emotion_only"
  by (simp add: re_search_braces_def emotion_only_def)

lemma emotion_only_object:
  "safe_json demo_env_emotion emotion_only = [''emotion'' \<mapsto> JStr ''joy'']"
  using re_search_braces_demo by (simp add: safe_json_def demo_env_emotion_def)

lemma emotion_only_nonempty: "emotion_only \<noteq> []" "strip emotion_only = emotion_only"
  by (simp_all add: emotion_only_def strip_def is_space_def)

lemma strip_lower_joy: "strip (lower ''joy'') = ''joy''"
  by (simp add: strip_def lower_def lower_char_def is_space_def)

lemma emotion_only_turn:
  "fst (api_chat demo_env_emotion Map.empty Map.empty demo_request) = chat_reply demo_env_emotion emotion_only"
proof -
  have c: "find_relevant_npy demo_env_emotion Map.empty ''alice'' (strip (message demo_request)) 3
             = Inr []"
    by (simp add: find_relevant_npy_def)
  have l: "load_data Map.empty (get_mem_path demo_env_emotion ''alice'') = JList []"
    by (simp add: load_data_def)
  have g: "\<And>msgs. ollama_chat demo_env_emotion msgs = JStr emotion_only"
    by (simp add: ollama_chat_def demo_env_emotion_def)
  show ?thesis
    using api_chat_reaches_reply [of demo_request "''alice''" demo_env_emotion Map.empty "[]" "[]"
                                     Map.empty emotion_only]
      demo_request_fields c l g emotion_only_nonempty
    by simp
qed

text \<open>
  C9, as the specification states it, does not hold. The output \<open>{"emotion": "joy"}\<close>
  holds a JSON object without the field \<open>reply\<close>, so no object with the expected fields
  can be extracted from it; the response carries the whole output as the reply, and the
  label \<open>joy\<close>, not \<open>neutral\<close>.
\<close>

theorem reply_extraction_counterexample:
  "emotion_only \<noteq> [] \<and>
   re_search_braces emotion_only = Some emotion_only \<and>
   json_loads demo_env_emotion emotion_only = Some [''emotion'' \<mapsto> JStr ''joy''] \<and>
   safe_json demo_env_emotion emotion_only ''reply'' = None \<and>
   fst (api_chat demo_env_emotion Map.empty Map.empty demo_request)
     = Json_reply ''joy'' emotion_only \<and>
   fst (api_chat demo_env_emotion Map.empty Map.empty demo_request)
     \<noteq> Json_reply ''neutral'' (strip emotion_only)"
proof -
  have j: "json_loads demo_env_emotion emotion_only = Some [''emotion'' \<mapsto> JStr ''joy'']"
    by (simp add: demo_env_emotion_def)
  have r: "chat_reply demo_env_emotion emotion_only = Json_reply ''joy'' emotion_only"
    by (simp add: chat_reply_def Let_def emotion_only_object get_or_def strip_lower_joy
        emotion_only_nonempty)
  show ?thesis
    using emotion_only_nonempty re_search_braces_demo j emotion_only_turn r
    by (simp add: emotion_only_object)
qed

text \<open>
  C9, amended. Let a turn reach the extraction of the reply: a user is logged in, the
  message is not blank, retrieval and the appends raise nothing, and the backend
  answers the messages of the turn with a string \<open>t\<close> that is not empty. If \<open>t\<close> holds no
  opening brace followed by a closing one, or \<open>json.loads\<close> rejects what lies between
  the first opening and the last closing brace, or the object read there gives no
  string for \<open>emotion\<close> and none for \<open>reply\<close>, the response is the reply \<open>strip t\<close> with the
  emotion \<open>neutral\<close>. More generally the two fields fall back one by one, as long as
  neither is a value that is true and not a string: the emotion is \<open>neutral\<close> unless the
  object gives a string for it that is not empty, then that string in lower case and
  stripped; the reply is \<open>strip t\<close> unless the object gives a string for it that is not
  empty, then that string stripped.
\<close>

theorem reply_extraction_falls_back_per_field:
  assumes user: "session_user req = Some uid" "strip (message req) \<noteq> []"
    and ctx: "find_relevant_npy e fs uid (strip (message req)) 3 = Inr ctx"
    and store: "load_data fs (get_mem_path e uid) = JList d"
    and gen: "ollama_chat e
                (build_messages (get_system_prompt e) (analyze_user_trends e sfs uid 5) ctx
                   (history req) (strip (message req))) = JStr t"
      "t \<noteq> []"
  shows "(re_search_braces t = None \<or>
          (\<exists>m. re_search_braces t = Some m \<and>
             (json_loads e m = None \<or>
              (\<exists>obj. json_loads e m = Some obj \<and>
                 unusable (obj ''emotion'') \<and> unusable (obj ''reply''))))
            \<longrightarrow> fst (api_chat e sfs fs req) = Json_reply ''neutral'' (strip t)) \<and>
         (safe_json e t ''emotion'' \<noteq> Some JTruthy \<and> safe_json e t ''reply'' \<noteq> Some JTruthy
            \<longrightarrow> fst (api_chat e sfs fs req)
                  = Json_reply
                      (case usable (safe_json e t ''emotion'') of
                         None \<Rightarrow> ''neutral'' | Some s \<Rightarrow> strip (lower s))
                      (strip (case usable (safe_json e t ''reply'') of
                                None \<Rightarrow> t | Some s \<Rightarrow> s)))"
proof (intro conjI impI)
  have turn: "fst (api_chat e sfs fs req) = chat_reply e t"
    using api_chat_reaches_reply [OF user ctx store gen] .
  {
    assume "re_search_braces t = None \<or>
          (\<exists>m. re_search_braces t = Some m \<and>
             (json_loads e m = None \<or>
              (\<exists>obj. json_loads e m = Some obj \<and>
                 unusable (obj ''emotion'') \<and> unusable (obj ''reply''))))"
    then have u: "unusable (safe_json e t ''emotion'')" "unusable (safe_json e t ''reply'')"
      using safe_json_absent [of t e] by blast+
    show "fst (api_chat e sfs fs req) = Json_reply ''neutral'' (strip t)"
      using turn chat_reply_fields [of e t] unusable_usable [OF u(1)] unusable_usable [OF u(2)]
      by simp
  }
  {
    assume "safe_json e t ''emotion'' \<noteq> Some JTruthy \<and> safe_json e t ''reply'' \<noteq> Some JTruthy"
    then show "fst (api_chat e sfs fs req)
                  = Json_reply
                      (case usable (safe_json e t ''emotion'') of
                         None \<Rightarrow> ''neutral'' | Some s \<Rightarrow> strip (lower s))
                      (strip (case usable (safe_json e t ''reply'') of
                                None \<Rightarrow> t | Some s \<Rightarrow> s))"
      using turn chat_reply_fields [of e t] by simp
  }
qed

theorem reply_extraction_falls_back_per_field_witness:
  "session_user demo_request = Some ''alice'' \<and>
   strip (message demo_request) \<noteq> [] \<and>
   find_relevant_npy demo_env_braces Map.empty ''alice'' (strip (message demo_request)) 3 = Inr [] \<and>
   load_data Map.empty (get_mem_path demo_env_braces ''alice'') = JList [] \<and>
   ollama_chat demo_env_braces
     (build_messages (get_system_prompt demo_env_braces)
        (analyze_user_trends demo_env_braces Map.empty ''alice'' 5) []
        (history demo_request) (strip (message demo_request))) = JStr ''ok {not json} bye'' \<and>
   re_search_braces ''ok {not json} bye'' = Some ''{not json}'' \<and>
   json_loads demo_env_braces ''{not json}'' = None \<and>
   fst (api_chat demo_env_braces Map.empty Map.empty demo_request)
     = Json_reply ''neutral'' ''ok {not json} bye'' \<and>
   find_relevant_npy demo_env_emotion Map.empty ''alice'' (strip (message demo_request)) 3 = Inr [] \<and>
   load_data Map.empty (get_mem_path demo_env_emotion ''alice'') = JList [] \<and>
   ollama_chat demo_env_emotion
     (build_messages (get_system_prompt demo_env_emotion)
        (analyze_user_trends demo_env_emotion Map.empty ''alice'' 5) []
        (history demo_request) (strip (message demo_request))) = JStr emotion_only \<and>
   safe_json demo_env_emotion emotion_only ''emotion'' = Some (JStr ''joy'') \<and>
   safe_json demo_env_emotion emotion_only ''reply'' = None \<and>
   fst (api_chat demo_env_emotion Map.empty Map.empty demo_request)
     = Json_reply ''joy'' emotion_only"
proof -
  have u: "session_user demo_request = Some ''alice''" "strip (message demo_request) \<noteq> []"
    by (simp_all add: demo_request_fields)
  have c: "\<And>e. find_relevant_npy e Map.empty ''alice'' (strip (message demo_request)) 3 = Inr []"
    by (simp add: find_relevant_npy_def)
  have l: "\<And>e. load_data Map.empty (get_mem_path e ''alice'') = JList []"
    by (simp add: load_data_def)
  have g1: "\<And>msgs. ollama_chat demo_env_braces msgs = JStr ''ok {not json} bye''"
    by (simp add: ollama_chat_def demo_env_braces_def)
  have g2: "\<And>msgs. ollama_chat demo_env_emotion msgs = JStr emotion_only"
    by (simp add: ollama_chat_def demo_env_emotion_def)
  have b: "re_search_braces ''ok {not json} bye'' = Some ''{not json}''"
    using re_search_braces_demo by simp
  have j: "json_loads demo_env_braces ''{not json}'' = None"
    by (simp add: demo_env_braces_def demo_env_def)
  have s: "strip ''ok {not json} bye'' = ''ok {not json} bye''"
    by (simp add: strip_def is_space_def)
  have o: "safe_json demo_env_emotion emotion_only ''emotion'' = Some (JStr ''joy'')"
    "safe_json demo_env_emotion emotion_only ''reply'' = None"
    by (simp_all add: emotion_only_object)
  have 1: "fst (api_chat demo_env_braces Map.empty Map.empty demo_request)
             = Json_reply ''neutral'' ''ok {not json} bye''"
    using reply_extraction_falls_back_per_field
            [of demo_request "''alice''" demo_env_braces Map.empty "[]" "[]" Map.empty
                "''ok {not json} bye''"]
      u c l g1 b j s
    by simp
  have 2: "fst (api_chat demo_env_emotion Map.empty Map.empty demo_request)
             = Json_reply ''joy'' emotion_only"
    using reply_extraction_falls_back_per_field
            [of demo_request "''alice''" demo_env_emotion Map.empty "[]" "[]" Map.empty
                emotion_only]
      u c l g2 o emotion_only_nonempty
    by (simp add: usable_def strip_lower_joy)
  show ?thesis using u c l g1 g2 b j o 1 2 by simp
qed

subsection \<open>The trend analyser\<close>








lemma count_chat_sad: "count_chat [] sad_chat = [(''sadness'', 3)]"
  unfolding sad_chat_def by (simp add: bump_def Let_def)



lemma recent_files_filter:
  "recent_files cutoff ps = filter (\<lambda>t. cutoff < updated_or_0 t) (parsed ps)"
  by (induction cutoff ps rule: recent_files.induct) (auto simp: parsed_def updated_or_0_def)

lemma parsed_set: "t \<in> set (parsed ps) \<longleftrightarrow> SDoc t \<in> set ps"
  by (induction ps) (auto simp: parsed_def split: session_file.splits)

lemma demo_session_dir:
  "path_join (SESS_DIR demo_env) (re_sub_unsafe (uni_word demo_env) ''alice'')
     = [''srv'', ''data'', ''sessions'', ''alice'']"
  by (simp add: path_eval demo_env_def)

lemma analyze_user_trends_dir:
  "sfs (path_join (SESS_DIR e) (re_sub_unsafe (uni_word e) user_id)) = Some ps \<Longrightarrow>
   analyze_user_trends e sfs user_id days
     = (if recent_files (now_ts e - days * 86400) ps = [] then []
        else trend_note days (count_files [] (recent_files (now_ts e - days * 86400) ps)))"
  by (simp add: analyze_user_trends_def Let_def)

lemma demo_sessions_dir:
  "demo_sessions t (path_join (SESS_DIR demo_env) (re_sub_unsafe (uni_word demo_env) ''alice''))
     = Some [SDoc t]"
  by (simp add: demo_session_dir demo_sessions_def)

text \<open>
  C4, as the specification states it, does not hold. With the clock at 1000000 and a
  window of 5 days, a transcript updated at 1000000 - 5 * 86400 lies in the closed
  window and is left out, so that its three sad turns give no hint; a transcript
  updated at 1000001 lies outside the closed window and is taken in.
\<close>

theorem closed_window_counterexample:
  "spec_window (now_ts demo_env) 5 edge_transcript \<and>
   recent_files (now_ts demo_env - 5 * 86400) [SDoc edge_transcript] = [] \<and>
   analyze_user_trends demo_env (demo_sessions edge_transcript) ''alice'' 5 = [] \<and>
   \<not> spec_window (now_ts demo_env) 5 future_transcript \<and>
   recent_files (now_ts demo_env - 5 * 86400) [SDoc future_transcript] = [future_transcript] \<and>
   analyze_user_trends demo_env (demo_sessions future_transcript) ''alice'' 5
     = trend_header 5 ''sadness'' 3 3 @ trend_suggestion"
proof -
  have n: "now_ts demo_env = 1000000" by (simp add: demo_env_def)
  have e: "recent_files (now_ts demo_env - 5 * 86400) [SDoc edge_transcript] = []"
    by (simp add: n edge_transcript_def)
  have f: "recent_files (now_ts demo_env - 5 * 86400) [SDoc future_transcript] = [future_transcript]"
    by (simp add: n future_transcript_def)
  have c: "count_files [] [future_transcript] = [(''sadness'', 3)]"
    by (simp add: future_transcript_def count_chat_sad)
  have t: "trend_note 5 [(''sadness'', 3)] = trend_header 5 ''sadness'' 3 3 @ trend_suggestion"
    by (simp add: trend_note_def bad_def)
  have a1: "analyze_user_trends demo_env (demo_sessions edge_transcript) ''alice'' 5 = []"
    using analyze_user_trends_dir
            [of "demo_sessions edge_transcript" demo_env "''alice''" "[SDoc edge_transcript]" 5]
      demo_sessions_dir [of edge_transcript] e
    by simp
  have a2: "analyze_user_trends demo_env (demo_sessions future_transcript) ''alice'' 5
              = trend_header 5 ''sadness'' 3 3 @ trend_suggestion"
    using analyze_user_trends_dir
            [of "demo_sessions future_transcript" demo_env "''alice''" "[SDoc future_transcript]" 5]
      demo_sessions_dir [of future_transcript] f c t
    by simp
  have s1: "spec_window (now_ts demo_env) 5 edge_transcript"
    by (simp add: spec_window_def n edge_transcript_def)
  have s2: "\<not> spec_window (now_ts demo_env) 5 future_transcript"
    by (simp add: spec_window_def n future_transcript_def)
  show ?thesis using s1 e a1 s2 f a2 by blast
qed

text \<open>
  C4, amended. \<open>analyze_user_trends\<close> aggregates exactly the transcripts of the user's
  directory that \<open>json.load\<close> accepts and whose \<open>updated\<close>, 0 when absent, is strictly
  greater than \<open>now - days * 86400\<close>, in the order of the directory. No upper bound is
  tested: a transcript updated at \<open>now - days * 86400\<close> is left out, and one updated
  after \<open>now\<close> is taken in when \<open>days\<close> is not negative.
\<close>

theorem analyze_user_trends_window:
  "recent_files (now_ts e - days * 86400) ps
     = filter (\<lambda>t. now_ts e - days * 86400 < updated_or_0 t) (parsed ps) \<and>
   (t \<in> set (recent_files (now_ts e - days * 86400) ps)
      \<longleftrightarrow> SDoc t \<in> set ps \<and> now_ts e - days * 86400 < updated_or_0 t) \<and>
   (sfs (path_join (SESS_DIR e) (re_sub_unsafe (uni_word e) user_id)) = Some ps \<longrightarrow>
      analyze_user_trends e sfs user_id days
        = (if recent_files (now_ts e - days * 86400) ps = [] then []
           else trend_note days (count_files [] (recent_files (now_ts e - days * 86400) ps)))) \<and>
   (updated t = Some (now_ts e - days * 86400)
      \<longrightarrow> t \<notin> set (recent_files (now_ts e - days * 86400) ps)) \<and>
   (SDoc t \<in> set ps \<and> updated t = Some u \<and> now_ts e < u \<and> 0 \<le> days
      \<longrightarrow> t \<in> set (recent_files (now_ts e - days * 86400) ps))"
proof (intro conjI)
  let ?c = "now_ts e - days * 86400"
  show "recent_files ?c ps = filter (\<lambda>t. ?c < updated_or_0 t) (parsed ps)"
    by (rule recent_files_filter)
  show m: "t \<in> set (recent_files ?c ps) \<longleftrightarrow> SDoc t \<in> set ps \<and> ?c < updated_or_0 t"
    by (simp add: recent_files_filter parsed_set)
  show "sfs (path_join (SESS_DIR e) (re_sub_unsafe (uni_word e) user_id)) = Some ps \<longrightarrow>
      analyze_user_trends e sfs user_id days
        = (if recent_files ?c ps = [] then []
           else trend_note days (count_files [] (recent_files ?c ps)))"
    using analyze_user_trends_dir [of sfs e user_id ps days] by blast
  show "updated t = Some ?c \<longrightarrow> t \<notin> set (recent_files ?c ps)"
    by (simp add: m updated_or_0_def)
  show "SDoc t \<in> set ps \<and> updated t = Some u \<and> now_ts e < u \<and> 0 \<le> days
      \<longrightarrow> t \<in> set (recent_files ?c ps)"
  proof (intro impI, elim conjE)
    assume a: "SDoc t \<in> set ps" "updated t = Some u" "now_ts e < u" "0 \<le> days"
    have "0 \<le> days * 86400" using a(4) by simp
    with a(3) have "?c < u" by linarith
    with a(1,2) show "t \<in> set (recent_files ?c ps)"
      by (simp add: m updated_or_0_def)
  qed
qed

theorem analyze_user_trends_window_witness:
  "demo_sessions future_transcript
       (path_join (SESS_DIR demo_env) (re_sub_unsafe (uni_word demo_env) ''alice''))
     = Some [SDoc future_transcript] \<and>
   updated future_transcript = Some 1000001 \<and> now_ts demo_env < 1000001 \<and>
   future_transcript \<in> set (recent_files (now_ts demo_env - 5 * 86400) [SDoc future_transcript]) \<and>
   updated edge_transcript = Some (now_ts demo_env - 5 * 86400) \<and>
   edge_transcript \<notin> set (recent_files (now_ts demo_env - 5 * 86400) [SDoc edge_transcript]) \<and>
   analyze_user_trends demo_env (demo_sessions future_transcript) ''alice'' 5
     = (if recent_files (now_ts demo_env - 5 * 86400) [SDoc future_transcript] = [] then []
        else trend_note 5
               (count_files [] (recent_files (now_ts demo_env - 5 * 86400) [SDoc future_transcript])))"
proof -
  have n: "now_ts demo_env = 1000000" by (simp add: demo_env_def)
  have d: "demo_sessions future_transcript
             (path_join (SESS_DIR demo_env) (re_sub_unsafe (uni_word demo_env) ''alice''))
           = Some [SDoc future_transcript]"
    by (rule demo_sessions_dir)
  have mem: "SDoc future_transcript \<in> set [SDoc future_transcript]" by simp
  have pos: "(0::int) \<le> 5" by simp
  have uf: "updated future_transcript = Some 1000001"
    by (simp add: future_transcript_def)
  have ue: "updated edge_transcript = Some (now_ts demo_env - 5 * 86400)"
    by (simp add: edge_transcript_def n)
  have lt: "now_ts demo_env < 1000001" by (simp add: n)
  note w1 = analyze_user_trends_window
              [of demo_env 5 "[SDoc future_transcript]" future_transcript
                  "demo_sessions future_transcript" "''alice''" 1000001]
  note w2 = analyze_user_trends_window
              [of demo_env 5 "[SDoc edge_transcript]" edge_transcript
                  "demo_sessions future_transcript" "''alice''" 0]
  have i: "future_transcript \<in> set (recent_files (now_ts demo_env - 5 * 86400) [SDoc future_transcript])"
    using w1 uf lt mem pos by blast
  have o: "edge_transcript \<notin> set (recent_files (now_ts demo_env - 5 * 86400) [SDoc edge_transcript])"
    using w2 ue by blast
  have a: "analyze_user_trends demo_env (demo_sessions future_transcript) ''alice'' 5
     = (if recent_files (now_ts demo_env - 5 * 86400) [SDoc future_transcript] = [] then []
        else trend_note 5
               (count_files [] (recent_files (now_ts demo_env - 5 * 86400) [SDoc future_transcript])))"
    using w1 d by blast
  show ?thesis using d uf lt i ue o a by blast
qed

end
